theory Spec2Isabelle
  imports Main "HOL-Library.Word"
begin

unbundle bit_operations_syntax

section \<open>The per-connection QUIC endpoint (QUICNetVConnection.cc)\<close>

text \<open>
  A shallow embedding of the connection object of \<^verbatim>\<open>iocore/net/QUICNetVConnection.cc\<close>.
  Member functions take the connection and return the updated connection; a
  \<^verbatim>\<open>QUICConnectionErrorUPtr\<close> is an \<open>option\<close> (\<open>None\<close> is \<^verbatim>\<open>nullptr\<close>).
  \<^verbatim>\<open>uint32_t\<close> is \<open>32 word\<close>, \<^verbatim>\<open>uint64_t\<close> and \<^verbatim>\<open>size_t\<close> are \<open>64 word\<close>,
  \<^verbatim>\<open>ink_hrtime\<close> is \<open>int\<close>. \<^verbatim>\<open>ink_assert\<close> is compiled out of a release build
  and is not a branch of the model; debug output is left out. Source names starting
  with an underscore lose it (\<^verbatim>\<open>_recv_and_ack\<close> is \<open>recv_and_ack\<close>).
\<close>

subsection \<open>Constants\<close>

definition IPV4_HEADER_SIZE :: "32 word" where "IPV4_HEADER_SIZE = 20"
definition IPV6_HEADER_SIZE :: "32 word" where "IPV6_HEADER_SIZE = 40"
definition UDP_HEADER_SIZE :: "32 word" where "UDP_HEADER_SIZE = 8"
definition MAX_PACKET_OVERHEAD :: "32 word" where "MAX_PACKET_OVERHEAD = 62"
definition MAX_STREAM_FRAME_OVERHEAD :: "32 word" where "MAX_STREAM_FRAME_OVERHEAD = 24"
definition MINIMUM_INITIAL_PACKET_SIZE :: "32 word" where "MINIMUM_INITIAL_PACKET_SIZE = 1200"
definition WRITE_READY_INTERVAL :: int where "WRITE_READY_INTERVAL = 20"
definition PACKET_PER_EVENT :: "32 word" where "PACKET_PER_EVENT = 32"
definition MAX_CONSECUTIVE_STREAMS :: "32 word" where "MAX_CONSECUTIVE_STREAMS = 8"
definition MAX_PACKETS_WITHOUT_SRC_ADDR_VARIDATION :: "32 word" where
  "MAX_PACKETS_WITHOUT_SRC_ADDR_VARIDATION = 3"
definition STATE_CLOSING_MAX_SEND_PKT_NUM :: nat where "STATE_CLOSING_MAX_SEND_PKT_NUM = 8"
definition STATE_CLOSING_MAX_RECV_PKT_WIND :: "32 word" where
  "STATE_CLOSING_MAX_RECV_PKT_WIND = push_bit STATE_CLOSING_MAX_SEND_PKT_NUM 1"

subsection \<open>Enumerations\<close>

text \<open>The continuation handler: one constructor per handler function of the class.\<close>

datatype handler_t =
    h_acceptEvent
  | h_startEvent
  | h_state_pre_handshake
  | h_state_handshake
  | h_state_connection_established
  | h_state_connection_closing
  | h_state_connection_draining
  | h_state_connection_closed

datatype NetVConnectionContext_t = NET_VCONNECTION_UNSET | NET_VCONNECTION_IN | NET_VCONNECTION_OUT

datatype ip_family_t = PF_INET | PF_INET6

datatype QUICPacketType =
    PT_VERSION_NEGOTIATION
  | PT_PROTECTED
  | PT_STATELESS_RESET
  | PT_INITIAL
  | PT_RETRY
  | PT_HANDSHAKE
  | PT_ZERO_RTT_PROTECTED
  | PT_UNINITIALIZED

datatype QUICEncryptionLevel = EL_NONE | EL_INITIAL | EL_ZERO_RTT | EL_HANDSHAKE | EL_ONE_RTT

datatype QUICPacketNumberSpace = PN_Initial | PN_Handshake | PN_ApplicationData

datatype QUICPacketCreationResult = SUCCESS | FAILED | NO_PACKET | NOT_READY | IGNORED | UNSUPPORTED

datatype QUICFrameType =
    FT_PADDING | FT_CONNECTION_CLOSE | FT_APPLICATION_CLOSE | FT_MAX_DATA | FT_MAX_STREAM_DATA
  | FT_PING | FT_BLOCKED | FT_STREAM_BLOCKED | FT_NEW_CONNECTION_ID | FT_RETIRE_CONNECTION_ID
  | FT_ACK | FT_PATH_CHALLENGE | FT_PATH_RESPONSE | FT_CRYPTO | FT_STREAM

datatype QUICErrorClass = TRANSPORT | APPLICATION

datatype QUICTransErrorCode =
    NO_ERROR | INTERNAL_ERROR | FLOW_CONTROL_ERROR | TRANSPORT_PARAMETER_ERROR
  | VERSION_NEGOTIATION_ERROR | PROTOCOL_VIOLATION

text \<open>An error code: a named transport code, or the 16-bit code read from a close frame.\<close>

datatype error_code = Trans QUICTransErrorCode | Wire "16 word"

record QUICConnectionError =
  cls :: QUICErrorClass
  code :: error_code
  msg :: "string option"
  frame_type :: "QUICFrameType option"

definition trans_error :: "QUICTransErrorCode \<Rightarrow> QUICConnectionError" where
  "trans_error e = \<lparr>cls = TRANSPORT, code = Trans e, msg = None, frame_type = None\<rparr>"

datatype event_t =
    QUIC_EVENT_PACKET_READ_READY
  | QUIC_EVENT_PACKET_WRITE_READY
  | QUIC_EVENT_PATH_VALIDATION_TIMEOUT
  | QUIC_EVENT_CLOSING_TIMEOUT
  | QUIC_EVENT_SHUTDOWN
  | EVENT_IMMEDIATE

datatype net_event_t = NET_EVENT_ACCEPT | NET_EVENT_OPEN

text \<open>A scheduled event handle: immediate, or after an interval.\<close>

datatype schedule_t = schedule_imm | schedule_in int

type_synonym QUICConnectionId = "8 word list"

definition QUICConnectionId_ZERO :: QUICConnectionId where
  "QUICConnectionId_ZERO = []"

subsection \<open>Packets and frames\<close>

text \<open>
  A received frame, as the frame dispatcher hands it on. The connection itself handles
  the types of \<^verbatim>\<open>interests()\<close>; every other frame goes to another handler (stream
  manager, path validator, handshake, loss detector), none of which is in this file:
  \<open>FOREIGN\<close> records what that handler did, namely the frame's type, the error it
  returned, and the stream manager's \<^verbatim>\<open>total_offset_received\<close> and
  \<^verbatim>\<open>total_reordered_bytes\<close> afterwards when it changed them.
\<close>

datatype QUICFrame =
    MAX_DATA "64 word"
  | PING
  | BLOCKED
  | NEW_CONNECTION_ID QUICConnectionId
  | APPLICATION_CLOSE "16 word"
  | CONNECTION_CLOSE "16 word"
  | FOREIGN QUICFrameType "QUICConnectionError option" "(64 word \<times> 64 word) option"

fun frame_type_of :: "QUICFrame \<Rightarrow> QUICFrameType" where
  "frame_type_of (MAX_DATA _) = FT_MAX_DATA"
| "frame_type_of PING = FT_PING"
| "frame_type_of BLOCKED = FT_BLOCKED"
| "frame_type_of (NEW_CONNECTION_ID _) = FT_NEW_CONNECTION_ID"
| "frame_type_of (APPLICATION_CLOSE _) = FT_APPLICATION_CLOSE"
| "frame_type_of (CONNECTION_CLOSE _) = FT_CONNECTION_CLOSE"
| "frame_type_of (FOREIGN t _ _) = t"

text \<open>A received, decrypted packet.\<close>

record QUICPacket =
  ptype :: QUICPacketType
  packet_number :: "64 word"
  destination_cid :: QUICConnectionId
  source_cid :: QUICConnectionId
  payload :: "QUICFrame list"

text \<open>A frame a producer generated for sending: type, encoded size, probing flag, and
  for a STREAM frame the stream bytes it carries.\<close>

record tx_frame =
  tx_type :: QUICFrameType
  tx_level :: QUICEncryptionLevel
  tx_size :: "64 word"
  is_probing_frame :: bool
  tx_data_length :: "64 word"

text \<open>A packet built by \<^verbatim>\<open>_build_packet\<close> for sending.\<close>

record tx_packet =
  tx_ptype :: QUICPacketType
  tx_dcid :: QUICConnectionId
  tx_scid :: "QUICConnectionId option"
  tx_packet_number :: "64 word"
  tx_largest_acked :: "64 word"
  tx_len :: "64 word"
  tx_retransmittable :: bool
  tx_probing :: bool

subsection \<open>The collaborators of the connection\<close>

text \<open>
  The classes below are used by \<^verbatim>\<open>QUICNetVConnection.cc\<close> but defined elsewhere. Each is
  modelled by the state the connection can observe and by the member functions it calls.
\<close>

record QUICTransportParameters =
  INITIAL_MAX_DATA :: "32 word"

text \<open>Modelled from the spec: the frame-producer contract of section 6
  (\<^verbatim>\<open>will_generate_frame(level)\<close>, \<^verbatim>\<open>generate_frame(level, max_frames, max_size)\<close>). The
  code of the producers is not in this file. A producer holds the frames it has to send,
  oldest first; it hands out the oldest one when that frame is of the asked level and
  fits the size, and declines otherwise.\<close>

type_synonym frame_queue = "tx_frame list"

definition will_generate_frame :: "frame_queue \<Rightarrow> QUICEncryptionLevel \<Rightarrow> bool" where
  "will_generate_frame q level = (case q of [] \<Rightarrow> False | f # _ \<Rightarrow> tx_level f = level)"

definition generate_frame ::
  "frame_queue \<Rightarrow> QUICEncryptionLevel \<Rightarrow> 64 word \<Rightarrow> tx_frame option \<times> frame_queue" where
  "generate_frame q level max_size =
     (case q of
        [] \<Rightarrow> (None, q)
      | f # fs \<Rightarrow>
          if tx_level f = level \<and> 0 < tx_size f \<and> tx_size f \<le> max_size then (Some f, fs)
          else (None, q))"

text \<open>Modelled from the spec: the connection flow controller of section 3
  (\<open>current_offset \<le> limit\<close>, the limit never decreases). \<^verbatim>\<open>QUICFlowController\<close> is not
  in this file. \<open>fc_update\<close> returns non-zero, and changes nothing, when the offset
  exceeds the limit.\<close>

record QUICFlowController =
  current_offset :: "64 word"
  current_limit :: "64 word"
  fc_frames :: frame_queue

definition fc_credit :: "QUICFlowController \<Rightarrow> 64 word" where
  "fc_credit fc = current_limit fc - current_offset fc"

definition fc_update :: "QUICFlowController \<Rightarrow> 64 word \<Rightarrow> int \<times> QUICFlowController" where
  "fc_update fc offset =
     (if current_offset fc \<le> offset then
        (if current_limit fc < offset then (- 1, fc)
         else (0, fc\<lparr>current_offset := offset\<rparr>))
      else (0, fc))"

definition fc_forward_limit :: "QUICFlowController \<Rightarrow> 64 word \<Rightarrow> QUICFlowController" where
  "fc_forward_limit fc limit = (if limit < current_limit fc then fc else fc\<lparr>current_limit := limit\<rparr>)"

definition fc_set_limit :: "QUICFlowController \<Rightarrow> 64 word \<Rightarrow> QUICFlowController" where
  "fc_set_limit fc limit = fc\<lparr>current_limit := limit\<rparr>"

text \<open>The stream manager: the three totals the connection reads, the frames it has to
  send, and the transport parameters \<^verbatim>\<open>init_flow_control_params\<close> gave it.\<close>

record QUICStreamManager =
  total_offset_received :: "64 word"
  total_reordered_bytes :: "64 word"
  total_offset_sent :: "64 word"
  sm_frames :: frame_queue
  sm_local_tp :: "QUICTransportParameters option"
  sm_remote_tp :: "QUICTransportParameters option"

definition sm_init_flow_control_params ::
  "QUICStreamManager \<Rightarrow> QUICTransportParameters option \<Rightarrow> QUICTransportParameters option
    \<Rightarrow> QUICStreamManager" where
  "sm_init_flow_control_params sm local_tp remote_tp = sm\<lparr>sm_local_tp := local_tp, sm_remote_tp := remote_tp\<rparr>"

text \<open>Modelled from the spec: the stream manager as a frame producer (section 4.3, step 7:
  it is asked for no more than the remote credit). A STREAM frame is handed out only when
  its stream bytes fit the connection credit, and then counts into
  \<^verbatim>\<open>total_offset_sent\<close>.\<close>

definition sm_generate_frame ::
  "QUICStreamManager \<Rightarrow> QUICEncryptionLevel \<Rightarrow> 64 word \<Rightarrow> 64 word
    \<Rightarrow> tx_frame option \<times> QUICStreamManager" where
  "sm_generate_frame sm level connection_credit max_size =
     (case generate_frame (sm_frames sm) level max_size of
        (None, _) \<Rightarrow> (None, sm)
      | (Some f, q) \<Rightarrow>
          if tx_type f = FT_STREAM then
            (if tx_data_length f \<le> connection_credit then
               (Some f, sm\<lparr>sm_frames := q, total_offset_sent := total_offset_sent sm + tx_data_length f\<rparr>)
             else (None, sm))
          else (Some f, sm\<lparr>sm_frames := q\<rparr>))"

text \<open>Modelled from the spec: the ack frame creator of section 4.2, step 4, and section
  4.3, step 8 (\<^verbatim>\<open>QUICAckFrameCreator\<close> is not in this file). It keeps the updates it was
  given, newest last; an ACK frame is due for a level when one of its updates there asked
  for an ack, and generating the frame for a level takes that level's updates away.\<close>

record QUICAckFrameCreator =
  ack_updates :: "(QUICEncryptionLevel \<times> 64 word \<times> bool) list"
  ack_frame_size :: "64 word"

definition ack_update ::
  "QUICAckFrameCreator \<Rightarrow> QUICEncryptionLevel \<Rightarrow> 64 word \<Rightarrow> bool \<Rightarrow> QUICAckFrameCreator" where
  "ack_update a level packet_num should_send =
     a\<lparr>ack_updates := ack_updates a @ [(level, packet_num, should_send)]\<rparr>"

definition ack_will_generate_frame :: "QUICAckFrameCreator \<Rightarrow> QUICEncryptionLevel \<Rightarrow> bool" where
  "ack_will_generate_frame a level = list_ex (\<lambda>(l, n, s). l = level \<and> s) (ack_updates a)"

definition ack_generate_frame ::
  "QUICAckFrameCreator \<Rightarrow> QUICEncryptionLevel \<Rightarrow> 64 word \<Rightarrow> tx_frame option \<times> QUICAckFrameCreator" where
  "ack_generate_frame a level max_size =
     (if list_ex (\<lambda>(l, n, s). l = level) (ack_updates a) \<and> 0 < ack_frame_size a \<and> ack_frame_size a \<le> max_size
      then (Some \<lparr>tx_type = FT_ACK, tx_level = level, tx_size = ack_frame_size a,
                   is_probing_frame = False, tx_data_length = 0\<rparr>,
            a\<lparr>ack_updates := filter (\<lambda>(l, n, s). l \<noteq> level) (ack_updates a)\<rparr>)
      else (None, a))"

text \<open>The handshake handler: what \<^verbatim>\<open>is_completed()\<close>, the transport parameters and
  \<^verbatim>\<open>negotiated_application_name()\<close> return, and the CRYPTO frames it has to send.\<close>

record QUICHandshake =
  is_completed :: bool
  is_version_negotiated :: bool
  local_transport_parameters :: "QUICTransportParameters option"
  remote_transport_parameters :: "QUICTransportParameters option"
  negotiated_application_name :: "string option"
  crypto_frames :: frame_queue

definition has_remote_tp :: "QUICHandshake \<Rightarrow> bool" where
  "has_remote_tp h = (remote_transport_parameters h \<noteq> None)"

record QUICPathValidator =
  is_validating :: bool
  is_validated :: bool
  pv_frames :: frame_queue

text \<open>A loss detector: its current RTO, its largest acknowledged packet number, and
  the packets \<^verbatim>\<open>on_packet_sent\<close> handed to it, newest last.\<close>

record QUICLossDetector =
  current_rto_period :: int
  ld_largest_acked_packet_number :: "64 word"
  sent_packets :: "tx_packet list"

definition on_packet_sent :: "QUICLossDetector \<Rightarrow> tx_packet \<Rightarrow> QUICLossDetector" where
  "on_packet_sent ld p = ld\<lparr>sent_packets := sent_packets ld @ [p]\<rparr>"

text \<open>What the packet handler was asked to send: a UDP payload of some length
  (\<^verbatim>\<open>send_packet(this, udp_payload)\<close>) or a single packet
  (\<^verbatim>\<open>send_packet(*_the_final_packet, this, _pn_protector)\<close>).\<close>

datatype sent_t = SentPayload "32 word" | SentPacket tx_packet

text \<open>Modelled from the spec: \<^verbatim>\<open>QUICTypeUtil\<close> (not in this file) maps packet types to
  encryption levels and back, and levels to the three packet-number spaces of section 3.\<close>

fun encryption_level :: "QUICPacketType \<Rightarrow> QUICEncryptionLevel" where
  "encryption_level PT_INITIAL = EL_INITIAL"
| "encryption_level PT_ZERO_RTT_PROTECTED = EL_ZERO_RTT"
| "encryption_level PT_HANDSHAKE = EL_HANDSHAKE"
| "encryption_level PT_PROTECTED = EL_ONE_RTT"
| "encryption_level _ = EL_NONE"

fun packet_type :: "QUICEncryptionLevel \<Rightarrow> QUICPacketType" where
  "packet_type EL_INITIAL = PT_INITIAL"
| "packet_type EL_ZERO_RTT = PT_ZERO_RTT_PROTECTED"
| "packet_type EL_HANDSHAKE = PT_HANDSHAKE"
| "packet_type EL_ONE_RTT = PT_PROTECTED"
| "packet_type EL_NONE = PT_UNINITIALIZED"

fun pn_space_index :: "QUICEncryptionLevel \<Rightarrow> QUICPacketNumberSpace" where
  "pn_space_index EL_INITIAL = PN_Initial"
| "pn_space_index EL_HANDSHAKE = PN_Handshake"
| "pn_space_index _ = PN_ApplicationData"

definition QUIC_ENCRYPTION_LEVELS :: "QUICEncryptionLevel list" where
  "QUIC_ENCRYPTION_LEVELS = [EL_INITIAL, EL_ZERO_RTT, EL_HANDSHAKE, EL_ONE_RTT]"

definition IP_PROTO_TAG_HTTP_QUIC :: string where
  "IP_PROTO_TAG_HTTP_QUIC = ''hq''"

subsection \<open>The connection\<close>

text \<open>
  The members of \<^verbatim>\<open>QUICNetVConnection\<close> that the modelled functions read or write.
  \<open>rnd_seq\<close> and \<open>rnd_idx\<close> stand for the random device \<^verbatim>\<open>_rnd\<close>: draw number \<open>i\<close> is
  \<open>rnd_seq i\<close>. \<open>cc_windows\<close> stands for the congestion controller: the values its
  \<^verbatim>\<open>open_window()\<close> returns from now on, in order (0 once exhausted).
  \<open>packet_recv_queue\<close> holds what \<^verbatim>\<open>_packet_recv_queue.dequeue\<close> returns from now on:
  the creation result and the packet (read only on \<open>SUCCESS\<close>).
  \<open>next_protocol_set\<close> lists the application names that have an endpoint;
  \<open>app_events\<close> are the events the application was sent; \<open>udp_sent\<close> is what the packet
  handler was asked to send, oldest first.
\<close>

record QUICNetVConnection =
  handler :: handler_t
  netvc_context :: NetVConnectionContext_t
  pmtu :: "32 word"
  ip_family :: ip_family_t
  rnd_seq :: "nat \<Rightarrow> 32 word"
  rnd_idx :: nat
  quic_connection_id :: QUICConnectionId
  peer_quic_connection_id :: QUICConnectionId
  original_quic_connection_id :: QUICConnectionId
  remote_alt_cids :: "QUICConnectionId list"
  last_received_packet_type :: QUICPacketType
  packet_recv_queue :: "(QUICPacketCreationResult \<times> QUICPacket) list"
  connection_error :: "QUICConnectionError option"
  the_final_packet :: "tx_packet option"
  packet_write_ready :: "schedule_t option"
  closing_timeout :: "int option"
  path_validation_timeout :: "int option"
  closed_event :: bool
  in_active_queue :: bool
  inactivity_timeout :: int
  state_closing_recv_packet_count :: "32 word"
  state_closing_recv_packet_window :: "32 word"
  handshake_handler :: "QUICHandshake option"
  current_encryption_level :: QUICEncryptionLevel
  application_started :: bool
  next_protocol_set :: "string list"
  app_events :: "net_event_t list"
  flow_control_buffer_size :: "32 word"
  local_flow_controller :: QUICFlowController
  remote_flow_controller :: QUICFlowController
  stream_manager :: QUICStreamManager
  ack_frame_creator :: QUICAckFrameCreator
  path_validator :: QUICPathValidator
  alt_con_manager :: "frame_queue option"
  packet_retransmitter :: frame_queue
  cc_windows :: "32 word list"
  loss_detector :: "QUICPacketNumberSpace \<Rightarrow> QUICLossDetector"
  next_packet_number :: "QUICPacketNumberSpace \<Rightarrow> 64 word"
  src_addr_verified :: bool
  handshake_packets_sent :: "32 word"
  stream_frames_sent :: "32 word"
  total_packets_sent_stat :: "64 word"
  udp_sent :: "sent_t list"

subsection \<open>Packet sizes\<close>

text \<open>\<^verbatim>\<open>minimum_quic_packet_size\<close>: the server branch draws from \<^verbatim>\<open>_rnd\<close>.\<close>

definition minimum_quic_packet_size :: "QUICNetVConnection \<Rightarrow> 32 word \<times> QUICNetVConnection" where
  "minimum_quic_packet_size c =
     (if netvc_context c = NET_VCONNECTION_OUT then (MINIMUM_INITIAL_PACKET_SIZE, c)
      else (32 + (rnd_seq c (rnd_idx c) AND 0x3f), c\<lparr>rnd_idx := rnd_idx c + 1\<rparr>))"

definition maximum_quic_packet_size :: "QUICNetVConnection \<Rightarrow> 32 word" where
  "maximum_quic_packet_size c =
     (if ip_family c = PF_INET6 then pmtu c - UDP_HEADER_SIZE - IPV6_HEADER_SIZE
      else pmtu c - UDP_HEADER_SIZE - IPV4_HEADER_SIZE)"

definition maximum_stream_frame_data_size :: "QUICNetVConnection \<Rightarrow> 64 word" where
  "maximum_stream_frame_data_size c =
     ucast (maximum_quic_packet_size c - MAX_STREAM_FRAME_OVERHEAD - MAX_PACKET_OVERHEAD)"

subsection \<open>Timers and scheduled events\<close>

definition schedule_packet_write_ready :: "QUICNetVConnection \<Rightarrow> bool \<Rightarrow> QUICNetVConnection" where
  "schedule_packet_write_ready c delay =
     (if packet_write_ready c = None then
        (if delay then c\<lparr>packet_write_ready := Some (schedule_in WRITE_READY_INTERVAL)\<rparr>
         else c\<lparr>packet_write_ready := Some schedule_imm\<rparr>)
      else c)"

definition unschedule_packet_write_ready :: "QUICNetVConnection \<Rightarrow> QUICNetVConnection" where
  "unschedule_packet_write_ready c =
     (if packet_write_ready c \<noteq> None then c\<lparr>packet_write_ready := None\<rparr> else c)"

definition close_packet_write_ready :: "QUICNetVConnection \<Rightarrow> QUICNetVConnection" where
  "close_packet_write_ready c = c\<lparr>packet_write_ready := None\<rparr>"

definition schedule_closing_timeout :: "QUICNetVConnection \<Rightarrow> int \<Rightarrow> QUICNetVConnection" where
  "schedule_closing_timeout c interval =
     (if closing_timeout c = None then c\<lparr>closing_timeout := Some interval\<rparr> else c)"

definition unschedule_closing_timeout :: "QUICNetVConnection \<Rightarrow> QUICNetVConnection" where
  "unschedule_closing_timeout c =
     (if closing_timeout c \<noteq> None then c\<lparr>closing_timeout := None\<rparr> else c)"

definition close_closing_timeout :: "QUICNetVConnection \<Rightarrow> QUICNetVConnection" where
  "close_closing_timeout c = c\<lparr>closing_timeout := None\<rparr>"

definition schedule_closed_event :: "QUICNetVConnection \<Rightarrow> QUICNetVConnection" where
  "schedule_closed_event c = (if \<not> closed_event c then c\<lparr>closed_event := True\<rparr> else c)"

definition schedule_path_validation_timeout :: "QUICNetVConnection \<Rightarrow> int \<Rightarrow> QUICNetVConnection" where
  "schedule_path_validation_timeout c interval =
     (if path_validation_timeout c = None then c\<lparr>path_validation_timeout := Some interval\<rparr> else c)"

definition unschedule_path_validation_timeout :: "QUICNetVConnection \<Rightarrow> QUICNetVConnection" where
  "unschedule_path_validation_timeout c =
     (if path_validation_timeout c \<noteq> None then c\<lparr>path_validation_timeout := None\<rparr> else c)"

definition close_path_validation_timeout :: "QUICNetVConnection \<Rightarrow> QUICNetVConnection" where
  "close_path_validation_timeout c = c\<lparr>path_validation_timeout := None\<rparr>"

text \<open>Inherited from the net VC: leaving the active queue and setting the inactivity
  timeout.\<close>

definition remove_from_active_queue :: "QUICNetVConnection \<Rightarrow> QUICNetVConnection" where
  "remove_from_active_queue c = c\<lparr>in_active_queue := False\<rparr>"

definition set_inactivity_timeout :: "QUICNetVConnection \<Rightarrow> int \<Rightarrow> QUICNetVConnection" where
  "set_inactivity_timeout c t = c\<lparr>inactivity_timeout := t\<rparr>"

subsection \<open>Handshake completion, closing and the state switches\<close>

definition init_flow_control_params ::
  "QUICNetVConnection \<Rightarrow> QUICTransportParameters option \<Rightarrow> QUICTransportParameters option
    \<Rightarrow> QUICNetVConnection" where
  "init_flow_control_params c local_tp remote_tp =
     (let c1 = c\<lparr>stream_manager := sm_init_flow_control_params (stream_manager c) local_tp remote_tp\<rparr>;
          local_initial_max_data = (case local_tp of None \<Rightarrow> 0 | Some tp \<Rightarrow> INITIAL_MAX_DATA tp);
          c2 = (case local_tp of None \<Rightarrow> c1
                | Some tp \<Rightarrow> c1\<lparr>flow_control_buffer_size := local_initial_max_data\<rparr>);
          remote_initial_max_data = (case remote_tp of None \<Rightarrow> 0 | Some tp \<Rightarrow> INITIAL_MAX_DATA tp)
      in c2\<lparr>local_flow_controller := fc_set_limit (local_flow_controller c2) (ucast local_initial_max_data),
             remote_flow_controller := fc_set_limit (remote_flow_controller c2) (ucast remote_initial_max_data)\<rparr>)"

lemma application_started_init_flow_control_params:
  "application_started (init_flow_control_params c l r) = application_started c"
  by (simp add: init_flow_control_params_def Let_def split: option.splits)

text \<open>
  \<^verbatim>\<open>_complete_handshake_if_possible\<close>, \<^verbatim>\<open>_start_application\<close>, \<^verbatim>\<open>_handle_error\<close>,
  \<^verbatim>\<open>close\<close> and \<^verbatim>\<open>_switch_to_closing_state\<close> call each other in a cycle: starting the
  application on the server reports a missing endpoint through \<^verbatim>\<open>_handle_error\<close>. The
  cycle ends because \<^verbatim>\<open>_application_started\<close> is set before the error is reported.
  \<^verbatim>\<open>_start_application\<close> dereferences \<^verbatim>\<open>_handshake_handler\<close> with no null test, as
  \<open>the (handshake_handler c)\<close> does; \<^verbatim>\<open>_complete_handshake_if_possible\<close> calls it after
  its own null test.
\<close>

function complete_handshake_if_possible :: "QUICNetVConnection \<Rightarrow> int \<times> QUICNetVConnection"
  and start_application :: "QUICNetVConnection \<Rightarrow> QUICNetVConnection"
  and handle_error :: "QUICNetVConnection \<Rightarrow> QUICConnectionError \<Rightarrow> QUICNetVConnection"
  and close :: "QUICNetVConnection \<Rightarrow> QUICConnectionError \<Rightarrow> QUICNetVConnection"
  and switch_to_closing_state :: "QUICNetVConnection \<Rightarrow> QUICConnectionError \<Rightarrow> QUICNetVConnection"
where
  "complete_handshake_if_possible c =
     (if handler c \<noteq> h_state_handshake then (0, c)
      else case handshake_handler c of
        None \<Rightarrow> (- 1, c)
      | Some h \<Rightarrow>
          if \<not> is_completed h then (- 1, c)
          else if netvc_context c = NET_VCONNECTION_OUT \<and> \<not> has_remote_tp h then (- 1, c)
          else (0, start_application
                     (init_flow_control_params c (local_transport_parameters h)
                        (remote_transport_parameters h))))"
| "start_application c =
     (if \<not> application_started c then
        (let c1 = c\<lparr>application_started := True\<rparr>;
             app_name = (case negotiated_application_name (the (handshake_handler c1)) of
                           None \<Rightarrow> IP_PROTO_TAG_HTTP_QUIC
                         | Some n \<Rightarrow> n)
         in if netvc_context c1 = NET_VCONNECTION_IN then
              (if app_name \<notin> set (next_protocol_set c1) then
                 handle_error c1 (trans_error VERSION_NEGOTIATION_ERROR)
               else c1\<lparr>app_events := app_events c1 @ [NET_EVENT_ACCEPT]\<rparr>)
            else c1\<lparr>app_events := app_events c1 @ [NET_EVENT_OPEN]\<rparr>)
      else c)"
| "handle_error c error = close c error"
| "close c error =
     (if handler c = h_state_connection_closed \<or> handler c = h_state_connection_closing then c
      else switch_to_closing_state c error)"
| "switch_to_closing_state c error =
     (let c1 = snd (complete_handshake_if_possible c);
          c2 = c1\<lparr>connection_error := Some error\<rparr>;
          c3 = schedule_packet_write_ready c2 False;
          c4 = remove_from_active_queue c3;
          c5 = set_inactivity_timeout c4 0;
          index = pn_space_index (current_encryption_level c5);
          rto = current_rto_period (loss_detector c5 index);
          c6 = c5\<lparr>handler := h_state_connection_closing\<rparr>
      in schedule_closing_timeout c6 (3 * rto))"
  by pat_completeness auto

termination
  apply (relation "measure (\<lambda>x. case x of
            Inl (Inl c) \<Rightarrow> (if application_started c then 0 else 5) + 1
          | Inl (Inr c) \<Rightarrow> (if application_started c then 0 else 5)
          | Inr (Inl (c, e)) \<Rightarrow> (if application_started c then 0 else 5) + 4
          | Inr (Inr (Inl (c, e))) \<Rightarrow> (if application_started c then 0 else 5) + 3
          | Inr (Inr (Inr (c, e))) \<Rightarrow> (if application_started c then 0 else 5) + 2)")
       apply (simp_all add: application_started_init_flow_control_params)
  done

declare complete_handshake_if_possible.simps [simp del]
declare start_application.simps [simp del]
declare close.simps [simp del]
declare switch_to_closing_state.simps [simp del]

definition switch_to_draining_state ::
  "QUICNetVConnection \<Rightarrow> QUICConnectionError \<Rightarrow> QUICNetVConnection" where
  "switch_to_draining_state c error =
     (let c1 = snd (complete_handshake_if_possible c);
          c2 = remove_from_active_queue c1;
          c3 = set_inactivity_timeout c2 0;
          index = pn_space_index (current_encryption_level c3);
          rto = current_rto_period (loss_detector c3 index);
          c4 = c3\<lparr>handler := h_state_connection_draining\<rparr>
      in schedule_closing_timeout c4 (3 * rto))"

definition switch_to_close_state :: "QUICNetVConnection \<Rightarrow> QUICNetVConnection" where
  "switch_to_close_state c =
     (let c1 = unschedule_closing_timeout c;
          c2 = unschedule_path_validation_timeout c1;
          c3 = snd (complete_handshake_if_possible c2);
          c4 = c3\<lparr>handler := h_state_connection_closed\<rparr>
      in schedule_closed_event c4)"

definition handle_idle_timeout :: "QUICNetVConnection \<Rightarrow> QUICNetVConnection" where
  "handle_idle_timeout c =
     switch_to_draining_state (remove_from_active_queue c)
       \<lparr>cls = TRANSPORT, code = Trans NO_ERROR, msg = Some ''Idle Timeout'', frame_type = None\<rparr>"

definition handle_path_validation_timeout :: "QUICNetVConnection \<Rightarrow> QUICNetVConnection" where
  "handle_path_validation_timeout c =
     (let c1 = close_path_validation_timeout c
      in if \<not> is_validated (path_validator c1) then switch_to_close_state c1 else c1)"

subsection \<open>Frames addressed to the connection\<close>

definition interests :: "QUICFrameType list" where
  "interests = [FT_APPLICATION_CLOSE, FT_CONNECTION_CLOSE, FT_BLOCKED, FT_MAX_DATA, FT_NEW_CONNECTION_ID]"

text \<open>\<^verbatim>\<open>_handle_frame(const QUICNewConnectionIdFrame &)\<close>.\<close>

definition handle_frame_new_connection_id ::
  "QUICNetVConnection \<Rightarrow> QUICConnectionId \<Rightarrow> QUICConnectionError option \<times> QUICNetVConnection" where
  "handle_frame_new_connection_id c cid =
     (if cid = QUICConnectionId_ZERO then
        (Some \<lparr>cls = TRANSPORT, code = Trans PROTOCOL_VIOLATION,
                msg = Some ''received zero-length cid'', frame_type = Some FT_NEW_CONNECTION_ID\<rparr>, c)
      else (None, c\<lparr>remote_alt_cids := remote_alt_cids c @ [cid]\<rparr>))"

fun handle_frame ::
  "QUICNetVConnection \<Rightarrow> QUICEncryptionLevel \<Rightarrow> QUICFrame
    \<Rightarrow> QUICConnectionError option \<times> QUICNetVConnection" where
  "handle_frame c level (MAX_DATA maximum_data) =
     (None, schedule_packet_write_ready
              (c\<lparr>remote_flow_controller := fc_forward_limit (remote_flow_controller c) maximum_data\<rparr>)
              False)"
| "handle_frame c level PING = (None, c)"
| "handle_frame c level BLOCKED = (None, c)"
| "handle_frame c level (NEW_CONNECTION_ID cid) = handle_frame_new_connection_id c cid"
| "handle_frame c level (APPLICATION_CLOSE error_code) =
     (if handler c = h_state_connection_closed \<or> handler c = h_state_connection_draining then (None, c)
      else (None, switch_to_draining_state c
                    \<lparr>cls = APPLICATION, code = Wire error_code, msg = None, frame_type = None\<rparr>))"
| "handle_frame c level (CONNECTION_CLOSE error_code) =
     (if handler c = h_state_connection_closed \<or> handler c = h_state_connection_draining then (None, c)
      else (None, switch_to_draining_state c
                    \<lparr>cls = TRANSPORT, code = Wire error_code, msg = None, frame_type = None\<rparr>))"
| "handle_frame c level (FOREIGN t e totals) = (None, c)"

text \<open>What a handler outside this file did with a frame: the error it returned, and
  the stream manager's receive totals where the frame changed them.\<close>

fun foreign_handle_frame :: "QUICNetVConnection \<Rightarrow> QUICFrame \<Rightarrow> QUICConnectionError option \<times> QUICNetVConnection" where
  "foreign_handle_frame c (FOREIGN t e (Some (received, reordered))) =
     (e, c\<lparr>stream_manager := (stream_manager c)\<lparr>total_offset_received := received,
                                                    total_reordered_bytes := reordered\<rparr>\<rparr>)"
| "foreign_handle_frame c (FOREIGN t e None) = (e, c)"
| "foreign_handle_frame c _ = (None, c)"

text \<open>Modelled from the spec: the frame dispatcher (sections 2, 4.2 and 6,
  \<^verbatim>\<open>receive_frames(level, payload, len) \<rightarrow> (should_send_ack, is_flow_controlled, error?)\<close>;
  \<^verbatim>\<open>QUICFrameDispatcher\<close> is not in this file). It routes the frames of a payload in
  order to their registered handlers, this connection for the types of \<open>interests\<close>,
  and stops at the first handler error. A frame other than ACK and PADDING asks for an
  ack; a STREAM frame makes the payload flow controlled.\<close>

fun receive_frames ::
  "QUICNetVConnection \<Rightarrow> QUICEncryptionLevel \<Rightarrow> QUICFrame list \<Rightarrow> bool \<Rightarrow> bool
    \<Rightarrow> QUICConnectionError option \<times> bool \<times> bool \<times> QUICNetVConnection" where
  "receive_frames c level [] should_send_ack is_flow_controlled =
     (None, should_send_ack, is_flow_controlled, c)"
| "receive_frames c level (frame # frames) should_send_ack is_flow_controlled =
     (let t = frame_type_of frame;
          should_send_ack1 = (should_send_ack \<or> (t \<noteq> FT_PADDING \<and> t \<noteq> FT_ACK));
          is_flow_controlled1 = (is_flow_controlled \<or> t = FT_STREAM);
          (error, c1) = (if t \<in> set interests then handle_frame c level frame
                         else foreign_handle_frame c frame)
      in if error \<noteq> None then (error, should_send_ack1, is_flow_controlled1, c1)
         else receive_frames c1 level frames should_send_ack1 is_flow_controlled1)"

subsection \<open>Receiving\<close>

definition recv_and_ack ::
  "QUICNetVConnection \<Rightarrow> QUICPacket \<Rightarrow> QUICConnectionError option \<times> QUICNetVConnection" where
  "recv_and_ack c packet =
     (let packet_num = packet_number packet;
          level = encryption_level (ptype packet);
          (error, should_send_ack, is_flow_controlled, c1) =
             receive_frames c level (payload packet) False False
      in if error \<noteq> None then (error, c1)
         else
           let should_send_ack1 = (if ptype packet = PT_RETRY then False else should_send_ack)
           in if is_flow_controlled then
                (let (ret, fc) = fc_update (local_flow_controller c1)
                                   (total_offset_received (stream_manager c1))
                 in if ret \<noteq> 0 then (Some (trans_error FLOW_CONTROL_ERROR), c1)
                    else
                      let c2 = c1\<lparr>local_flow_controller :=
                                    fc_forward_limit fc
                                      (total_reordered_bytes (stream_manager c1)
                                        + ucast (flow_control_buffer_size c1))\<rparr>
                      in (None, c2\<lparr>ack_frame_creator :=
                                      ack_update (ack_frame_creator c2) level packet_num should_send_ack1\<rparr>))
              else (None, c1\<lparr>ack_frame_creator :=
                                ack_update (ack_frame_creator c1) level packet_num should_send_ack1\<rparr>))"

definition update_peer_cid :: "QUICNetVConnection \<Rightarrow> QUICConnectionId \<Rightarrow> QUICNetVConnection" where
  "update_peer_cid c new_cid = c\<lparr>peer_quic_connection_id := new_cid\<rparr>"

definition update_local_cid :: "QUICNetVConnection \<Rightarrow> QUICConnectionId \<Rightarrow> QUICNetVConnection" where
  "update_local_cid c new_cid = c\<lparr>quic_connection_id := new_cid\<rparr>"

text \<open>Modelled from the spec: the receive queue of section 4.7, a FIFO whose
  \<^verbatim>\<open>dequeue\<close> returns a packet and a result (\<^verbatim>\<open>QUICPacketReceiveQueue\<close> is not in this
  file). An empty queue returns \<open>NO_PACKET\<close> and no packet.\<close>

definition dequeue ::
  "(QUICPacketCreationResult \<times> QUICPacket) list
    \<Rightarrow> QUICPacket option \<times> QUICPacketCreationResult \<times> (QUICPacketCreationResult \<times> QUICPacket) list" where
  "dequeue q = (case q of [] \<Rightarrow> (None, NO_PACKET, []) | (result, p) # rest \<Rightarrow> (Some p, result, rest))"

definition dequeue_recv_packet ::
  "QUICNetVConnection \<Rightarrow> QUICPacket option \<times> QUICPacketCreationResult \<times> QUICNetVConnection" where
  "dequeue_recv_packet c =
     (let (packet, result, q) = dequeue (packet_recv_queue c);
          c1 = c\<lparr>packet_recv_queue := q\<rparr>
      in case packet of
           None \<Rightarrow> (packet, result, c1)
         | Some p \<Rightarrow>
             if result = SUCCESS then
               (let c2 = (if netvc_context c1 = NET_VCONNECTION_OUT then
                            (if source_cid p \<noteq> QUICConnectionId_ZERO then
                               (if peer_quic_connection_id c1 \<noteq> source_cid p
                                then update_peer_cid c1 (source_cid p) else c1)
                             else c1)
                          else c1)
                in (packet, result, c2\<lparr>last_received_packet_type := ptype p\<rparr>))
             else (packet, result, c1))"

text \<open>
  What none of the functions above touches: the receive queue, what was sent, the
  closing-state counters, the loss detectors, the final packet, the packet numbers and
  the ack frame creator. The loops below
  terminate because the receive queue only shrinks.\<close>

definition io_kept :: "QUICNetVConnection \<Rightarrow> QUICNetVConnection \<Rightarrow> bool" where
  "io_kept c c' \<longleftrightarrow>
     packet_recv_queue c' = packet_recv_queue c \<and> udp_sent c' = udp_sent c
     \<and> state_closing_recv_packet_count c' = state_closing_recv_packet_count c
     \<and> state_closing_recv_packet_window c' = state_closing_recv_packet_window c
     \<and> loss_detector c' = loss_detector c
     \<and> the_final_packet c' = the_final_packet c
     \<and> next_packet_number c' = next_packet_number c
     \<and> ack_frame_creator c' = ack_frame_creator c"

lemma io_kept_refl: "io_kept c c"
  by (simp add: io_kept_def)

lemma io_kept_trans: "io_kept a b \<Longrightarrow> io_kept b c \<Longrightarrow> io_kept a c"
  by (simp add: io_kept_def)

lemma io_kept_cluster:
  "io_kept c (snd (complete_handshake_if_possible c))"
  "io_kept c (start_application c)"
  "io_kept c (handle_error c e)"
  "io_kept c (close c e)"
  "io_kept c (switch_to_closing_state c e)"
proof (induct c and c and c e and c e and c e
    rule: complete_handshake_if_possible_start_application_handle_error_close_switch_to_closing_state.induct)
  case (1 c)
  then show ?case
    by (subst complete_handshake_if_possible.simps)
       (auto simp: io_kept_def init_flow_control_params_def Let_def fc_set_limit_def
             split: option.splits)
next
  case (2 c)
  then show ?case
    by (subst start_application.simps) (auto simp: io_kept_def Let_def split: option.splits)
next
  case (3 c error)
  then show ?case by simp
next
  case (4 c error)
  then show ?case
    by (subst close.simps) (auto simp: io_kept_def)
next
  case (5 c error)
  then show ?case
    by (subst switch_to_closing_state.simps)
       (auto simp: io_kept_def Let_def schedule_packet_write_ready_def remove_from_active_queue_def
             set_inactivity_timeout_def schedule_closing_timeout_def)
qed

lemma io_kept_switch_to_draining_state: "io_kept c (switch_to_draining_state c e)"
  using io_kept_cluster(1) [of c]
  by (auto simp: switch_to_draining_state_def io_kept_def Let_def remove_from_active_queue_def
        set_inactivity_timeout_def schedule_closing_timeout_def)


lemma io_kept_handle_frame: "io_kept c (snd (handle_frame c level frame))"
  using io_kept_switch_to_draining_state [of c]
  by (cases frame)
     (auto simp: io_kept_def schedule_packet_write_ready_def handle_frame_new_connection_id_def)

lemma io_kept_foreign_handle_frame: "io_kept c (snd (foreign_handle_frame c frame))"
  by (cases "(c, frame)" rule: foreign_handle_frame.cases) (auto simp: io_kept_def)

lemma io_kept_receive_frames: "io_kept c (snd (snd (snd (receive_frames c level frames a f))))"
proof (induction frames arbitrary: c a f)
  case Nil
  then show ?case by (simp add: io_kept_refl)
next
  case (Cons frame frames)
  show ?case
  proof (cases "frame_type_of frame \<in> set interests")
    case True
    obtain e c1 where h: "handle_frame c level frame = (e, c1)" by (cases "handle_frame c level frame")
    have k: "io_kept c c1" using io_kept_handle_frame [of c level frame] h by simp
    show ?thesis
      using True h k Cons.IH [of c1] by (auto simp: Let_def intro: io_kept_trans)
  next
    case False
    obtain e c1 where h: "foreign_handle_frame c frame = (e, c1)" by (cases "foreign_handle_frame c frame")
    have k: "io_kept c c1" using io_kept_foreign_handle_frame [of c frame] h by simp
    show ?thesis
      using False h k Cons.IH [of c1] by (auto simp: Let_def intro: io_kept_trans)
  qed
qed

lemma io_kept_recv_and_ack:
  "io_kept c ((snd (recv_and_ack c packet))\<lparr>ack_frame_creator := ack_frame_creator c\<rparr>)"
proof -
  obtain e a f c1 where
    r: "receive_frames c (encryption_level (ptype packet)) (payload packet) False False = (e, a, f, c1)"
    by (cases "receive_frames c (encryption_level (ptype packet)) (payload packet) False False") auto
  have "io_kept c c1"
    using io_kept_receive_frames [of c "encryption_level (ptype packet)" "payload packet" False False] r
    by simp
  then show ?thesis
    using r by (auto simp: recv_and_ack_def Let_def io_kept_def split: prod.splits)
qed

lemma packet_recv_queue_dequeue_recv_packet:
  "packet_recv_queue c \<noteq> [] \<Longrightarrow> dequeue_recv_packet c = (packet, result, c1)
    \<Longrightarrow> length (packet_recv_queue c1) < length (packet_recv_queue c)"
  by (cases "packet_recv_queue c")
     (auto simp: dequeue_recv_packet_def dequeue_def Let_def update_peer_cid_def split: if_splits)

lemma packet_recv_queue_recv_and_ack:
  "packet_recv_queue (snd (recv_and_ack c packet)) = packet_recv_queue c"
  using io_kept_recv_and_ack [of c packet] by (simp add: io_kept_def)

text \<open>\<^verbatim>\<open>_state_closing_receive_packet\<close>: the loop runs while the queue holds a packet and
  stops after scheduling a write. It always returns \<^verbatim>\<open>nullptr\<close>.\<close>

function state_closing_receive_packet_loop :: "QUICNetVConnection \<Rightarrow> QUICNetVConnection" where
  "state_closing_receive_packet_loop c =
     (if packet_recv_queue c \<noteq> [] then
        (case dequeue_recv_packet c of
           (packet, result, c1) \<Rightarrow>
             let c2 = (if result = SUCCESS then
                         (case packet of
                            None \<Rightarrow> c1
                          | Some p \<Rightarrow>
                              if ptype p = PT_VERSION_NEGOTIATION then c1
                              else snd (recv_and_ack c1 p))
                       else c1);
                 c3 = c2\<lparr>state_closing_recv_packet_count := state_closing_recv_packet_count c2 + 1\<rparr>
             in if state_closing_recv_packet_window c3 < STATE_CLOSING_MAX_RECV_PKT_WIND
                   \<and> state_closing_recv_packet_window c3 \<le> state_closing_recv_packet_count c3
                then
                  schedule_packet_write_ready
                    (c3\<lparr>state_closing_recv_packet_count := 0,
                        state_closing_recv_packet_window := push_bit 1 (state_closing_recv_packet_window c3)\<rparr>)
                    True
                else state_closing_receive_packet_loop c3)
      else c)"
  by pat_completeness auto
termination
proof (relation "measure (\<lambda>c. length (packet_recv_queue c))")
  show "wf (measure (\<lambda>c. length (packet_recv_queue c)))" by simp
next
  fix c :: QUICNetVConnection and packet y result c1 c2 c3
  assume q: "packet_recv_queue c \<noteq> []"
    and d: "(packet, y) = dequeue_recv_packet c" "(result, c1) = y"
    and c2: "c2 = (if result = SUCCESS then
                     case packet of None \<Rightarrow> c1
                     | Some p \<Rightarrow> if ptype p = PT_VERSION_NEGOTIATION then c1 else snd (recv_and_ack c1 p)
                   else c1)"
    and c3: "c3 = c2\<lparr>state_closing_recv_packet_count := state_closing_recv_packet_count c2 + 1\<rparr>"
  from d have "dequeue_recv_packet c = (packet, result, c1)" by simp
  then have "length (packet_recv_queue c1) < length (packet_recv_queue c)"
    using q packet_recv_queue_dequeue_recv_packet by blast
  moreover have "packet_recv_queue c2 = packet_recv_queue c1"
    unfolding c2 by (simp add: packet_recv_queue_recv_and_ack split: option.splits)
  ultimately show "(c3, c) \<in> measure (\<lambda>c. length (packet_recv_queue c))"
    unfolding c3 by simp
qed

declare state_closing_receive_packet_loop.simps [simp del]

definition state_closing_receive_packet ::
  "QUICNetVConnection \<Rightarrow> QUICConnectionError option \<times> QUICNetVConnection" where
  "state_closing_receive_packet c = (None, state_closing_receive_packet_loop c)"




subsection \<open>Building packets\<close>

definition largest_acked_packet_number :: "QUICNetVConnection \<Rightarrow> QUICEncryptionLevel \<Rightarrow> 64 word" where
  "largest_acked_packet_number c level =
     ld_largest_acked_packet_number (loss_detector c (pn_space_index level))"

text \<open>Modelled from the spec: the packet factory (section 4.3, step 7;
  \<^verbatim>\<open>QUICPacketFactory\<close> is not in this file) gives a packet the next packet number of
  its packet-number space. A RETRY packet is numbered in the Initial space.\<close>

definition create_packet ::
  "QUICNetVConnection \<Rightarrow> QUICPacketType \<Rightarrow> QUICPacketNumberSpace \<Rightarrow> QUICConnectionId
    \<Rightarrow> QUICConnectionId option \<Rightarrow> 64 word \<Rightarrow> 64 word \<Rightarrow> bool \<Rightarrow> bool
    \<Rightarrow> tx_packet option \<times> QUICNetVConnection" where
  "create_packet c t space dcid scid largest_acked len retransmittable probing =
     (Some \<lparr>tx_ptype = t, tx_dcid = dcid, tx_scid = scid,
             tx_packet_number = next_packet_number c space, tx_largest_acked = largest_acked,
             tx_len = len, tx_retransmittable = retransmittable, tx_probing = probing\<rparr>,
      c\<lparr>next_packet_number := (next_packet_number c)(space := next_packet_number c space + 1)\<rparr>)"

text \<open>\<^verbatim>\<open>_build_packet(buf, len, retransmittable, probing, type)\<close>: the default branch
  (0-RTT among others) returns the null packet.\<close>

definition build_packet_of_type ::
  "QUICNetVConnection \<Rightarrow> 64 word \<Rightarrow> bool \<Rightarrow> bool \<Rightarrow> QUICPacketType
    \<Rightarrow> tx_packet option \<times> QUICNetVConnection" where
  "build_packet_of_type c len retransmittable probing t =
     (case t of
        PT_INITIAL \<Rightarrow>
          (let dcid = (if netvc_context c = NET_VCONNECTION_OUT then original_quic_connection_id c
                       else peer_quic_connection_id c)
           in create_packet c PT_INITIAL PN_Initial dcid (Some (quic_connection_id c))
                (largest_acked_packet_number c EL_INITIAL) len retransmittable probing)
      | PT_RETRY \<Rightarrow>
          create_packet c PT_RETRY PN_Initial (peer_quic_connection_id c) (Some (quic_connection_id c))
            0 len retransmittable probing
      | PT_HANDSHAKE \<Rightarrow>
          create_packet c PT_HANDSHAKE PN_Handshake (peer_quic_connection_id c)
            (Some (quic_connection_id c)) (largest_acked_packet_number c EL_HANDSHAKE)
            len retransmittable probing
      | PT_PROTECTED \<Rightarrow>
          create_packet c PT_PROTECTED PN_ApplicationData (peer_quic_connection_id c) None
            (largest_acked_packet_number c EL_ONE_RTT) len retransmittable probing
      | _ \<Rightarrow> (None, c))"

text \<open>\<^verbatim>\<open>_build_packet(level, buf, len, retransmittable, probing)\<close>.\<close>

definition build_packet ::
  "QUICNetVConnection \<Rightarrow> QUICEncryptionLevel \<Rightarrow> 64 word \<Rightarrow> bool \<Rightarrow> bool
    \<Rightarrow> tx_packet option \<times> QUICNetVConnection" where
  "build_packet c level len retransmittable probing =
     build_packet_of_type c len retransmittable probing (packet_type level)"

text \<open>Modelled from the spec: the wire format of section 6 (the frame factory is not in
  this file). A close frame is its type byte, the 16-bit error code, the offending frame
  type for a CONNECTION_CLOSE, the length of the reason and the reason, with one-byte
  variable-length integers.\<close>

definition close_frame_size :: "QUICConnectionError \<Rightarrow> 64 word" where
  "close_frame_size e =
     (let reason = (case msg e of None \<Rightarrow> 0 | Some m \<Rightarrow> of_nat (length m))
      in if cls e = APPLICATION then 1 + 2 + 1 + reason else 1 + 2 + 1 + 1 + reason)"

definition packetize_closing_frame :: "QUICNetVConnection \<Rightarrow> QUICNetVConnection" where
  "packetize_closing_frame c =
     (case connection_error c of
        None \<Rightarrow> c
      | Some error \<Rightarrow>
          let c1 = c\<lparr>connection_error := None\<rparr>;
              len = 0 + close_frame_size error;
              level = current_encryption_level c1;
              (packet, c2) = build_packet c1 level len False False
          in c2\<lparr>the_final_packet := packet\<rparr>)"

definition state_closing_send_packet ::
  "QUICNetVConnection \<Rightarrow> QUICConnectionError option \<times> QUICNetVConnection" where
  "state_closing_send_packet c =
     (let c1 = packetize_closing_frame c
      in case the_final_packet c1 of
           Some p \<Rightarrow> (None, c1\<lparr>udp_sent := udp_sent c1 @ [SentPacket p]\<rparr>)
         | None \<Rightarrow> (None, c1))"

subsection \<open>The handlers of the closing and draining states\<close>

text \<open>Both return \<^verbatim>\<open>EVENT_DONE\<close>; the model returns the connection.\<close>

fun state_connection_closing :: "QUICNetVConnection \<Rightarrow> event_t \<Rightarrow> QUICNetVConnection" where
  "state_connection_closing c QUIC_EVENT_PACKET_READ_READY = snd (state_closing_receive_packet c)"
| "state_connection_closing c QUIC_EVENT_PACKET_WRITE_READY =
     snd (state_closing_send_packet (close_packet_write_ready c))"
| "state_connection_closing c QUIC_EVENT_PATH_VALIDATION_TIMEOUT = handle_path_validation_timeout c"
| "state_connection_closing c QUIC_EVENT_CLOSING_TIMEOUT =
     switch_to_close_state (close_closing_timeout c)"
| "state_connection_closing c _ = c"


subsection \<open>Packetizing frames\<close>

text \<open>The local variables of \<^verbatim>\<open>_packetize_frames\<close>: the remaining frame budget, the probing
  flag, the number of frames stored and the bytes written to the buffer.\<close>

record packetize_locals =
  max_frame_size :: "64 word"
  probing :: bool
  frame_count :: int
  len :: "64 word"

text \<open>\<^verbatim>\<open>_store_frame\<close>: the frame is written at the offset; \<open>l\<close> is its encoded size.\<close>

definition store_frame :: "packetize_locals \<Rightarrow> tx_frame \<Rightarrow> packetize_locals" where
  "store_frame s frame =
     (let l = tx_size frame
      in s\<lparr>len := len s + l, max_frame_size := max_frame_size s - l\<rparr>)"

text \<open>The three statements that follow every generated frame: count it, fold its
  probing flag in, store it.\<close>

definition count_and_store_frame :: "packetize_locals \<Rightarrow> tx_frame \<Rightarrow> packetize_locals" where
  "count_and_store_frame s frame =
     store_frame (s\<lparr>frame_count := frame_count s + 1,
                    probing := (probing s \<or> is_probing_frame frame)\<rparr>) frame"

lemma generate_frame_shorter:
  "generate_frame q level max_size = (Some frame, q1) \<Longrightarrow> length q1 < length q"
  by (auto simp: generate_frame_def split: list.splits if_splits)

text \<open>The loop used for CRYPTO, NEW_CONNECTION_ID and lost frames: generate and store
  until the producer declines.\<close>

function store_frames_while_generated ::
  "frame_queue \<Rightarrow> QUICEncryptionLevel \<Rightarrow> packetize_locals \<Rightarrow> frame_queue \<times> packetize_locals" where
  "store_frames_while_generated q level s =
     (case generate_frame q level (max_frame_size s) of
        (None, q1) \<Rightarrow> (q1, s)
      | (Some frame, q1) \<Rightarrow> store_frames_while_generated q1 level (count_and_store_frame s frame))"
  by pat_completeness auto
termination
  by (relation "measure (\<lambda>(q, level, s). length q)") (auto dest: generate_frame_shorter [OF sym])

declare store_frames_while_generated.simps [simp del]

lemma sm_generate_frame_shorter:
  "sm_generate_frame sm level credit max_size = (Some frame, sm1)
    \<Longrightarrow> length (sm_frames sm1) < length (sm_frames sm)"
  by (auto simp: sm_generate_frame_def split: prod.splits option.splits if_splits
      dest: generate_frame_shorter)

text \<open>The STREAM loop: a stored STREAM frame forwards the remote flow controller to the
  stream manager's \<^verbatim>\<open>total_offset_sent\<close>; the loop is left after every
  \<^verbatim>\<open>MAX_CONSECUTIVE_STREAMS\<close>-th frame.\<close>

function stream_frames_loop ::
  "QUICNetVConnection \<Rightarrow> QUICEncryptionLevel \<Rightarrow> packetize_locals
    \<Rightarrow> QUICNetVConnection \<times> packetize_locals" where
  "stream_frames_loop c level s =
     (case sm_generate_frame (stream_manager c) level (fc_credit (remote_flow_controller c))
             (max_frame_size s) of
        (None, sm) \<Rightarrow> (c, s)
      | (Some frame, sm) \<Rightarrow>
          let c1 = c\<lparr>stream_manager := sm\<rparr>;
              c2 = (if tx_type frame = FT_STREAM then
                      c1\<lparr>remote_flow_controller :=
                           snd (fc_update (remote_flow_controller c1) (total_offset_sent sm))\<rparr>
                    else c1);
              s1 = count_and_store_frame s frame;
              c3 = c2\<lparr>stream_frames_sent := stream_frames_sent c2 + 1\<rparr>
          in if stream_frames_sent c3 mod MAX_CONSECUTIVE_STREAMS = 0 then (c3, s1)
             else stream_frames_loop c3 level s1)"
  by pat_completeness auto
termination
  by (relation "measure (\<lambda>(c, level, s). length (sm_frames (stream_manager c)))")
     (auto dest: sm_generate_frame_shorter [OF sym])

declare stream_frames_loop.simps [simp del]

text \<open>
  The body of \<^verbatim>\<open>_packetize_frames\<close>, block by block; each block is named after the
  comment that heads it in the source and maps the connection and the local variables
  to their values after the block.
\<close>

text \<open>CRYPTO. The source dereferences \<^verbatim>\<open>_handshake_handler\<close> with no null test, as
  \<open>the (handshake_handler c)\<close> does.\<close>

definition packetize_crypto ::
  "QUICNetVConnection \<Rightarrow> QUICEncryptionLevel \<Rightarrow> packetize_locals
    \<Rightarrow> QUICNetVConnection \<times> packetize_locals" where
  "packetize_crypto c level s =
     (let h = the (handshake_handler c)
      in case store_frames_while_generated (crypto_frames h) level s of
           (q, s1) \<Rightarrow> (c\<lparr>handshake_handler := Some (h\<lparr>crypto_frames := q\<rparr>)\<rparr>, s1))"

text \<open>PATH_CHALLENGE, PATH_RESPONSE.\<close>

definition packetize_path ::
  "QUICNetVConnection \<Rightarrow> QUICEncryptionLevel \<Rightarrow> packetize_locals
    \<Rightarrow> QUICNetVConnection \<times> packetize_locals" where
  "packetize_path c level s =
     (case generate_frame (pv_frames (path_validator c)) level (max_frame_size s) of
        (None, q) \<Rightarrow> (c, s)
      | (Some frame, q) \<Rightarrow>
          (c\<lparr>path_validator := (path_validator c)\<lparr>pv_frames := q\<rparr>\<rparr>, count_and_store_frame s frame))"

text \<open>NEW_CONNECTION_ID.\<close>

definition packetize_new_connection_id ::
  "QUICNetVConnection \<Rightarrow> QUICEncryptionLevel \<Rightarrow> packetize_locals
    \<Rightarrow> QUICNetVConnection \<times> packetize_locals" where
  "packetize_new_connection_id c level s =
     (case alt_con_manager c of
        None \<Rightarrow> (c, s)
      | Some acm \<Rightarrow>
          (case store_frames_while_generated acm level s of
             (q, s1) \<Rightarrow> (c\<lparr>alt_con_manager := Some q\<rparr>, s1)))"

text \<open>Lost frames.\<close>

definition packetize_lost_frames ::
  "QUICNetVConnection \<Rightarrow> QUICEncryptionLevel \<Rightarrow> packetize_locals
    \<Rightarrow> QUICNetVConnection \<times> packetize_locals" where
  "packetize_lost_frames c level s =
     (case store_frames_while_generated (packet_retransmitter c) level s of
        (q, s1) \<Rightarrow> (c\<lparr>packet_retransmitter := q\<rparr>, s1))"

text \<open>MAX_DATA.\<close>

definition packetize_max_data ::
  "QUICNetVConnection \<Rightarrow> QUICEncryptionLevel \<Rightarrow> packetize_locals
    \<Rightarrow> QUICNetVConnection \<times> packetize_locals" where
  "packetize_max_data c level s =
     (case generate_frame (fc_frames (local_flow_controller c)) level (max_frame_size s) of
        (None, q) \<Rightarrow> (c, s)
      | (Some frame, q) \<Rightarrow>
          (c\<lparr>local_flow_controller := (local_flow_controller c)\<lparr>fc_frames := q\<rparr>\<rparr>,
           count_and_store_frame s frame))"

text \<open>BLOCKED.\<close>

definition packetize_blocked ::
  "QUICNetVConnection \<Rightarrow> QUICEncryptionLevel \<Rightarrow> packetize_locals
    \<Rightarrow> QUICNetVConnection \<times> packetize_locals" where
  "packetize_blocked c level s =
     (if fc_credit (remote_flow_controller c) = 0
         \<and> will_generate_frame (sm_frames (stream_manager c)) level then
        (case generate_frame (fc_frames (remote_flow_controller c)) level (max_frame_size s) of
           (None, q) \<Rightarrow> (c, s)
         | (Some frame, q) \<Rightarrow>
             (c\<lparr>remote_flow_controller := (remote_flow_controller c)\<lparr>fc_frames := q\<rparr>\<rparr>,
              count_and_store_frame s frame))
      else (c, s))"

text \<open>STREAM, MAX_STREAM_DATA, STREAM_BLOCKED.\<close>

definition packetize_stream ::
  "QUICNetVConnection \<Rightarrow> QUICEncryptionLevel \<Rightarrow> packetize_locals
    \<Rightarrow> QUICNetVConnection \<times> packetize_locals" where
  "packetize_stream c level s =
     (if \<not> is_validating (path_validator c) then stream_frames_loop c level s else (c, s))"

text \<open>ACK; the third component is \<^verbatim>\<open>ack_only\<close>.\<close>

definition packetize_ack ::
  "QUICNetVConnection \<Rightarrow> QUICEncryptionLevel \<Rightarrow> packetize_locals
    \<Rightarrow> QUICNetVConnection \<times> packetize_locals \<times> bool" where
  "packetize_ack c level s =
     (case (if frame_count s = 0 then
              (if ack_will_generate_frame (ack_frame_creator c) level then
                 ack_generate_frame (ack_frame_creator c) level (max_frame_size s)
               else (None, ack_frame_creator c))
            else ack_generate_frame (ack_frame_creator c) level (max_frame_size s)) of
        (None, afc) \<Rightarrow> (c\<lparr>ack_frame_creator := afc\<rparr>, s, False)
      | (Some frame, afc) \<Rightarrow>
          (c\<lparr>ack_frame_creator := afc\<rparr>, count_and_store_frame s frame, frame_count s = 0))"

text \<open>Schedule a packet: nothing when the buffer is empty; a client pads its Initial
  packets.\<close>

definition packetize_schedule ::
  "QUICNetVConnection \<Rightarrow> QUICEncryptionLevel \<Rightarrow> 64 word \<Rightarrow> packetize_locals \<Rightarrow> bool
    \<Rightarrow> tx_packet option \<times> QUICNetVConnection" where
  "packetize_schedule c level max_packet_size s ack_only =
     (if len s \<noteq> 0 then
        (if level = EL_INITIAL \<and> netvc_context c = NET_VCONNECTION_OUT then
           (case minimum_quic_packet_size c of
              (m, c1) \<Rightarrow>
                let min_size = min (ucast m) max_packet_size;
                    len1 = (if len s < min_size then len s + (min_size - len s) else len s)
                in build_packet c1 level len1 (\<not> ack_only) (probing s))
         else build_packet c level (len s) (\<not> ack_only) (probing s))
      else (None, c))"

definition packetize_frames ::
  "QUICNetVConnection \<Rightarrow> QUICEncryptionLevel \<Rightarrow> 64 word \<Rightarrow> tx_packet option \<times> QUICNetVConnection" where
  "packetize_frames c level max_packet_size =
     (if max_packet_size \<le> ucast MAX_PACKET_OVERHEAD then (None, c)
      else
        let s0 = \<lparr>max_frame_size = min (max_packet_size - ucast MAX_PACKET_OVERHEAD)
                                      (maximum_stream_frame_data_size c),
                  probing = False, frame_count = 0, len = 0\<rparr>;
            (c1, s1) = packetize_crypto c level s0;
            (c2, s2) = packetize_path c1 level s1;
            (c3, s3) = packetize_new_connection_id c2 level s2;
            (c4, s4) = packetize_lost_frames c3 level s3;
            (c5, s5) = packetize_max_data c4 level s4;
            (c6, s6) = packetize_blocked c5 level s5;
            (c7, s7) = packetize_stream c6 level s6;
            (c8, s8, ack_only) = packetize_ack c7 level s7
        in packetize_schedule c8 level max_packet_size s8 ack_only)"

subsection \<open>Sending\<close>

text \<open>Modelled from the spec: the congestion controller contract of section 6,
  \<^verbatim>\<open>open_window() \<rightarrow> bytes\<close> (\<^verbatim>\<open>QUICCongestionController\<close> is not in this file). Each
  call takes the next value of \<open>cc_windows\<close>.\<close>

definition open_window :: "QUICNetVConnection \<Rightarrow> 32 word \<times> QUICNetVConnection" where
  "open_window c = (case cc_windows c of [] \<Rightarrow> (0, c) | w # ws \<Rightarrow> (w, c\<lparr>cc_windows := ws\<rparr>))"

text \<open>Modelled from the spec: what \<^verbatim>\<open>QUICPacket::store\<close> writes (the packet codec is not
  in this file) is the payload and the header overhead that \<^verbatim>\<open>_packetize_frames\<close>
  budgets for.\<close>

definition packet_store_len :: "tx_packet \<Rightarrow> 64 word" where
  "packet_store_len p = tx_len p + ucast MAX_PACKET_OVERHEAD"

definition is_src_addr_verified :: "QUICNetVConnection \<Rightarrow> bool" where
  "is_src_addr_verified c = src_addr_verified c"

text \<open>The inner loop of \<^verbatim>\<open>_state_common_send_packet\<close>, over the encryption levels still to
  visit; it returns the connection, \<^verbatim>\<open>written\<close>, \<^verbatim>\<open>packet_count\<close> and \<^verbatim>\<open>error\<close>.\<close>

fun send_packets_of_levels ::
  "QUICEncryptionLevel list \<Rightarrow> QUICNetVConnection \<Rightarrow> 32 word \<Rightarrow> 32 word \<Rightarrow> 32 word \<Rightarrow> 32 word
    \<Rightarrow> QUICNetVConnection \<times> 32 word \<times> 32 word \<times> 32 word" where
  "send_packets_of_levels [] c udp_payload_len written packet_count error =
     (c, written, packet_count, error)"
| "send_packets_of_levels (level # levels) c udp_payload_len written packet_count error =
     (if netvc_context c = NET_VCONNECTION_IN \<and> \<not> is_src_addr_verified c
         \<and> MAX_PACKETS_WITHOUT_SRC_ADDR_VARIDATION \<le> handshake_packets_sent c
      then (c, written, packet_count, 1)
      else
        let max_packet_size = udp_payload_len - written;
            (packet, c1) = packetize_frames c level (ucast max_packet_size)
        in case packet of
             None \<Rightarrow> send_packets_of_levels levels c1 udp_payload_len written packet_count error
           | Some p \<Rightarrow>
               let c2 = (if netvc_context c1 = NET_VCONNECTION_IN
                            \<and> (tx_ptype p = PT_INITIAL \<or> tx_ptype p = PT_HANDSHAKE)
                         then c1\<lparr>handshake_packets_sent := handshake_packets_sent c1 + 1\<rparr>
                         else c1);
                   written1 = written + ucast (packet_store_len p);
                   index = pn_space_index level;
                   c3 = c2\<lparr>loss_detector :=
                             (loss_detector c2)(index := on_packet_sent (loss_detector c2 index) p)\<rparr>
               in send_packets_of_levels levels c3 udp_payload_len written1 (packet_count + 1) error)"

lemma send_packets_of_levels_count:
  "send_packets_of_levels levels c n w pc e = (c', w', pc', e')
   \<Longrightarrow> \<exists>k \<le> length levels. pc' = pc + of_nat k \<and> (w' \<noteq> w \<longrightarrow> 0 < k)"
proof (induction levels arbitrary: c w pc)
  case Nil
  then show ?case by simp
next
  case (Cons level levels)
  show ?case
  proof (cases "netvc_context c = NET_VCONNECTION_IN \<and> \<not> is_src_addr_verified c
         \<and> MAX_PACKETS_WITHOUT_SRC_ADDR_VARIDATION \<le> handshake_packets_sent c")
    case True
    then have "pc' = pc + of_nat 0 \<and> w' = w" using Cons.prems by auto
    then show ?thesis by blast
  next
    case False
    obtain packet c1 where p: "packetize_frames c level (ucast (n - w)) = (packet, c1)"
      by (cases "packetize_frames c level (ucast (n - w))")
    show ?thesis
    proof (cases packet)
      case None
      then have "send_packets_of_levels levels c1 n w pc e = (c', w', pc', e')"
        using Cons.prems False p by (simp add: Let_def)
      from Cons.IH [OF this] obtain k where
        "k \<le> length levels" "pc' = pc + of_nat k" "w' \<noteq> w \<longrightarrow> 0 < k" by blast
      then have "k \<le> length (level # levels) \<and> pc' = pc + of_nat k \<and> (w' \<noteq> w \<longrightarrow> 0 < k)"
        by simp
      then show ?thesis by blast
    next
      case (Some pk)
      then obtain c3 where
        "send_packets_of_levels levels c3 n (w + ucast (packet_store_len pk)) (pc + 1) e = (c', w', pc', e')"
        using Cons.prems False p by (simp add: Let_def)
      from Cons.IH [OF this] obtain k where
        k: "k \<le> length levels" "pc' = pc + 1 + of_nat k" by auto
      then have "Suc k \<le> length (level # levels) \<and> pc' = pc + of_nat (Suc k)
                 \<and> (w' \<noteq> w \<longrightarrow> 0 < Suc k)"
        by simp
      then show ?thesis by blast
    qed
  qed
qed

lemma unat_add_few:
  "unat (pc :: 32 word) < 32 \<Longrightarrow> k \<le> 4 \<Longrightarrow> unat (pc + of_nat k) = unat pc + k"
  by (simp add: unat_word_ariths unat_of_nat)

lemma send_packets_of_levels_progress:
  assumes "send_packets_of_levels QUIC_ENCRYPTION_LEVELS c n 0 pc e = (c', w', pc', e')"
    and "pc < PACKET_PER_EVENT" and "w' \<noteq> 0"
  shows "unat pc < unat pc'"
proof -
  from send_packets_of_levels_count [OF assms(1)] obtain k where
    k0: "k \<le> length QUIC_ENCRYPTION_LEVELS" "pc' = pc + of_nat k" "w' \<noteq> 0 \<longrightarrow> 0 < k"
    by blast
  have k: "k \<le> 4" "pc' = pc + of_nat k" "0 < k"
    using k0 assms(3) by (simp_all add: QUIC_ENCRYPTION_LEVELS_def)
  have "unat pc < 32" using assms(2) by (simp add: PACKET_PER_EVENT_def word_less_nat_alt)
  then have "unat pc' = unat pc + k" using k unat_add_few by blast
  then show "unat pc < unat pc'" using k by simp
qed

text \<open>The outer loop of \<^verbatim>\<open>_state_common_send_packet\<close>; it returns the connection and
  \<^verbatim>\<open>packet_count\<close>. It terminates because a datagram that was written holds a packet.\<close>

function state_common_send_packet_loop ::
  "QUICNetVConnection \<Rightarrow> 32 word \<Rightarrow> 32 word \<Rightarrow> QUICNetVConnection \<times> 32 word" where
  "state_common_send_packet_loop c packet_count error =
     (if error = 0 \<and> packet_count < PACKET_PER_EVENT then
        (case open_window c of
           (window, c1) \<Rightarrow>
             if window = 0 then (c1, packet_count)
             else
               let udp_payload_len = min window (pmtu c1)
               in case send_packets_of_levels QUIC_ENCRYPTION_LEVELS c1 udp_payload_len 0
                         packet_count error of
                    (c2, written, packet_count1, error1) \<Rightarrow>
                      if written \<noteq> 0 then
                        state_common_send_packet_loop
                          (c2\<lparr>udp_sent := udp_sent c2 @ [SentPayload written]\<rparr>) packet_count1 error1
                      else (c2, packet_count1))
      else (c, packet_count))"
  by pat_completeness auto
termination
proof (relation "measure (\<lambda>(c, packet_count, error). 32 - unat packet_count)")
  show "wf (measure (\<lambda>(c, packet_count, error). 32 - unat packet_count))" by simp
next
  fix c :: QUICNetVConnection and packet_count error window :: "32 word"
    and c1 udp_payload_len c2 ya written yb packet_count1 error1
  assume g: "error = 0 \<and> packet_count < PACKET_PER_EVENT"
    and s: "(c2, ya) = send_packets_of_levels QUIC_ENCRYPTION_LEVELS c1 udp_payload_len 0 packet_count error"
      "(written, yb) = ya" "(packet_count1, error1) = yb"
    and w: "written \<noteq> 0"
  from s have "send_packets_of_levels QUIC_ENCRYPTION_LEVELS c1 udp_payload_len 0 packet_count error
                = (c2, written, packet_count1, error1)"
    by simp
  from send_packets_of_levels_progress [OF this _ w] g
  have "unat packet_count < unat packet_count1" by simp
  moreover have "unat packet_count < 32"
    using g by (simp add: PACKET_PER_EVENT_def word_less_nat_alt)
  ultimately show "((c2\<lparr>udp_sent := udp_sent c2 @ [SentPayload written]\<rparr>, packet_count1, error1),
                    c, packet_count, error)
                   \<in> measure (\<lambda>(c, packet_count, error). 32 - unat packet_count)"
    by simp
qed

declare state_common_send_packet_loop.simps [simp del]

text \<open>\<^verbatim>\<open>_state_common_send_packet\<close>; it always returns \<^verbatim>\<open>nullptr\<close>.\<close>

definition state_common_send_packet ::
  "QUICNetVConnection \<Rightarrow> QUICConnectionError option \<times> QUICNetVConnection" where
  "state_common_send_packet c =
     (case state_common_send_packet_loop c 0 0 of
        (c1, packet_count) \<Rightarrow>
          if packet_count \<noteq> 0 then
            (None, c1\<lparr>total_packets_sent_stat := total_packets_sent_stat c1 + ucast packet_count\<rparr>)
          else (None, c1))"

subsection \<open>Connections and packets to evaluate the model on\<close>

text \<open>
  A connection as \<^verbatim>\<open>init\<close> and \<^verbatim>\<open>start\<close> leave it: both flow controllers at
  \<^verbatim>\<open>UINT64_MAX\<close>, nothing scheduled, nothing sent, every queue empty. The closing
  window starts at 1 and the count at 0, the path MTU at 1280.
\<close>

definition new_flow_controller :: QUICFlowController where
  "new_flow_controller = \<lparr>current_offset = 0, current_limit = - 1, fc_frames = []\<rparr>"

definition new_loss_detector :: QUICLossDetector where
  "new_loss_detector = \<lparr>current_rto_period = 500, ld_largest_acked_packet_number = 0, sent_packets = []\<rparr>"

definition new_handshake :: QUICHandshake where
  "new_handshake =
     \<lparr>is_completed = False, is_version_negotiated = False,
      local_transport_parameters = Some \<lparr>INITIAL_MAX_DATA = 65536\<rparr>,
      remote_transport_parameters = None, negotiated_application_name = None, crypto_frames = []\<rparr>"

definition new_connection :: "NetVConnectionContext_t \<Rightarrow> QUICNetVConnection" where
  "new_connection context =
     \<lparr>handler = h_state_pre_handshake,
      netvc_context = context,
      pmtu = 1280,
      ip_family = PF_INET,
      rnd_seq = (\<lambda>i. 0),
      rnd_idx = 0,
      quic_connection_id = [1, 1, 1, 1],
      peer_quic_connection_id = [2, 2, 2, 2],
      original_quic_connection_id = [3, 3, 3, 3],
      remote_alt_cids = [],
      last_received_packet_type = PT_UNINITIALIZED,
      packet_recv_queue = [],
      connection_error = None,
      the_final_packet = None,
      packet_write_ready = None,
      closing_timeout = None,
      path_validation_timeout = None,
      closed_event = False,
      in_active_queue = False,
      inactivity_timeout = 0,
      state_closing_recv_packet_count = 0,
      state_closing_recv_packet_window = 1,
      handshake_handler = Some new_handshake,
      current_encryption_level = EL_INITIAL,
      application_started = False,
      next_protocol_set = [IP_PROTO_TAG_HTTP_QUIC],
      app_events = [],
      flow_control_buffer_size = 1024,
      local_flow_controller = new_flow_controller,
      remote_flow_controller = new_flow_controller,
      stream_manager = \<lparr>total_offset_received = 0, total_reordered_bytes = 0, total_offset_sent = 0,
                         sm_frames = [], sm_local_tp = None, sm_remote_tp = None\<rparr>,
      ack_frame_creator = \<lparr>ack_updates = [], ack_frame_size = 8\<rparr>,
      path_validator = \<lparr>is_validating = False, is_validated = False, pv_frames = []\<rparr>,
      alt_con_manager = None,
      packet_retransmitter = [],
      cc_windows = [],
      loss_detector = (\<lambda>s. new_loss_detector),
      next_packet_number = (\<lambda>s. 0),
      src_addr_verified = False,
      handshake_packets_sent = 0,
      stream_frames_sent = 0,
      total_packets_sent_stat = 0,
      udp_sent = []\<rparr>"

definition rx_packet :: "QUICPacketType \<Rightarrow> 64 word \<Rightarrow> QUICFrame list \<Rightarrow> QUICPacket" where
  "rx_packet t n frames =
     \<lparr>ptype = t, packet_number = n, destination_cid = [1, 1, 1, 1], source_cid = [2, 2, 2, 2],
      payload = frames\<rparr>"

text \<open>\<^verbatim>\<open>handle_received_packet\<close>: the UDP handler enqueues a datagram; the model enqueues
  what its decryption will give.\<close>

definition handle_received_packet ::
  "QUICNetVConnection \<Rightarrow> QUICPacketCreationResult \<times> QUICPacket \<Rightarrow> QUICNetVConnection" where
  "handle_received_packet c packet = c\<lparr>packet_recv_queue := packet_recv_queue c @ [packet]\<rparr>"

text \<open>A client in the closing state whose local connection limit is 65536, and a RETRY
  packet whose STREAM frame takes the stream manager's received total to 70000.\<close>

definition closing_client :: QUICNetVConnection where
  "closing_client =
     (new_connection NET_VCONNECTION_OUT)
       \<lparr>handler := h_state_connection_closing,
        local_flow_controller := new_flow_controller\<lparr>current_limit := 65536\<rparr>\<rparr>"

definition retry_over_limit :: QUICPacket where
  "retry_over_limit = rx_packet PT_RETRY 7 [FOREIGN FT_STREAM None (Some (70000, 70000))]"

definition retry_with_crypto :: QUICPacket where
  "retry_with_crypto = rx_packet PT_RETRY 7 [FOREIGN FT_CRYPTO None None]"

text \<open>An established client with limit and buffer size 65536, and a 1-RTT packet whose
  STREAM frame takes the received and reordered totals to 1000.\<close>

definition established_client :: QUICNetVConnection where
  "established_client =
     (new_connection NET_VCONNECTION_OUT)
       \<lparr>handler := h_state_connection_established,
        flow_control_buffer_size := 65536,
        local_flow_controller := new_flow_controller\<lparr>current_limit := 65536\<rparr>\<rparr>"



definition established_server :: QUICNetVConnection where
  "established_server = (new_connection NET_VCONNECTION_IN)\<lparr>handler := h_state_connection_established\<rparr>"

text \<open>A client in the handshake state whose handshake has completed and which has the
  peer's transport parameters.\<close>

definition handshake_done_client :: QUICNetVConnection where
  "handshake_done_client =
     (new_connection NET_VCONNECTION_OUT)
       \<lparr>handler := h_state_handshake,
        handshake_handler := Some (new_handshake\<lparr>is_completed := True,
                                     remote_transport_parameters := Some \<lparr>INITIAL_MAX_DATA = 4096\<rparr>\<rparr>)\<rparr>"

text \<open>A server in the handshake state whose handshake has completed; the default
  application name has an endpoint.\<close>

definition handshake_done_server :: QUICNetVConnection where
  "handshake_done_server =
     (new_connection NET_VCONNECTION_IN)
       \<lparr>handler := h_state_handshake,
        handshake_handler := Some (new_handshake\<lparr>is_completed := True,
                                     remote_transport_parameters := Some \<lparr>INITIAL_MAX_DATA = 4096\<rparr>\<rparr>)\<rparr>"

text \<open>A server in the draining state, its closing timeout running.\<close>

definition draining_server :: QUICNetVConnection where
  "draining_server =
     (new_connection NET_VCONNECTION_IN)
       \<lparr>handler := h_state_connection_draining, closing_timeout := Some 1500,
        current_encryption_level := EL_ONE_RTT\<rparr>"

text \<open>The connection and stream flow-control limits are those of the transport parameters
  of the handshake \<open>h\<close>, as \<^verbatim>\<open>_init_flow_control_params\<close> sets them.\<close>

definition flow_control_initialized :: "QUICNetVConnection \<Rightarrow> QUICHandshake \<Rightarrow> bool" where
  "flow_control_initialized c h \<longleftrightarrow>
     handshake_handler c = Some h
     \<and> current_limit (local_flow_controller c)
         = ucast (case local_transport_parameters h of None \<Rightarrow> 0 | Some tp \<Rightarrow> INITIAL_MAX_DATA tp)
     \<and> current_limit (remote_flow_controller c)
         = ucast (case remote_transport_parameters h of None \<Rightarrow> 0 | Some tp \<Rightarrow> INITIAL_MAX_DATA tp)
     \<and> sm_local_tp (stream_manager c) = local_transport_parameters h
     \<and> sm_remote_tp (stream_manager c) = remote_transport_parameters h"

subsection \<open>Delivering events\<close>




text \<open>The draining server with one received 1-RTT packet that carries a MAX_DATA frame.\<close>

definition max_data_packet :: "64 word \<Rightarrow> QUICPacket" where
  "max_data_packet n = rx_packet PT_PROTECTED n [MAX_DATA 100000]"


text \<open>The event loop delivers PACKET_WRITE_READY to a closing connection only when that
  event is scheduled. One round is: a packet arrives, PACKET_READ_READY is delivered,
  then the write event if one is scheduled.\<close>

definition deliver_write_ready_closing :: "QUICNetVConnection \<Rightarrow> QUICNetVConnection" where
  "deliver_write_ready_closing c =
     (if packet_write_ready c \<noteq> None then state_connection_closing c QUIC_EVENT_PACKET_WRITE_READY else c)"

fun closing_rounds :: "QUICNetVConnection \<Rightarrow> QUICPacket list \<Rightarrow> QUICNetVConnection" where
  "closing_rounds c [] = c"
| "closing_rounds c (p # ps) =
     closing_rounds
       (deliver_write_ready_closing
          (state_connection_closing (handle_received_packet c (SUCCESS, p)) QUIC_EVENT_PACKET_READ_READY))
       ps"

text \<open>An established server after \<^verbatim>\<open>close(INTERNAL_ERROR)\<close> and the write event that
  \<^verbatim>\<open>close\<close> scheduled: it is in the closing state and has sent its close packet once.\<close>

definition closing_server :: QUICNetVConnection where
  "closing_server =
     deliver_write_ready_closing
       (close (established_server\<lparr>current_encryption_level := EL_ONE_RTT\<rparr>) (trans_error INTERNAL_ERROR))"

text \<open>A closing connection at rest: nothing queued, no write scheduled, the final packet
  \<open>fp\<close> built.\<close>

definition closing_idle :: "QUICNetVConnection \<Rightarrow> tx_packet \<Rightarrow> bool" where
  "closing_idle c fp \<longleftrightarrow>
     packet_recv_queue c = [] \<and> packet_write_ready c = None
     \<and> the_final_packet c = Some fp \<and> connection_error c = None"

text \<open>The close packet that \<open>closing_server\<close> built.\<close>

definition close_packet :: tx_packet where
  "close_packet =
     \<lparr>tx_ptype = PT_PROTECTED, tx_dcid = [2, 2, 2, 2], tx_scid = None, tx_packet_number = 0,
      tx_largest_acked = 0, tx_len = 5, tx_retransmittable = False, tx_probing = False\<rparr>"

text \<open>The loss detectors and the packet handler were given nothing between \<open>c\<close> and
  \<open>c'\<close>.\<close>

definition sent_log_kept :: "QUICNetVConnection \<Rightarrow> QUICNetVConnection \<Rightarrow> bool" where
  "sent_log_kept c c' \<longleftrightarrow> loss_detector c' = loss_detector c \<and> udp_sent c' = udp_sent c"

text \<open>The number of packets handed to the loss detectors so far.\<close>

definition packets_handed :: "QUICNetVConnection \<Rightarrow> nat" where
  "packets_handed c =
     length (sent_packets (loss_detector c PN_Initial))
     + length (sent_packets (loss_detector c PN_Handshake))
     + length (sent_packets (loss_detector c PN_ApplicationData))"


text \<open>A server whose source address is verified, with \<open>n\<close> lost flights to send again, each
  of one 100-byte frame at the Initial, the Handshake and the 1-RTT level, and a congestion
  window of 1280 bytes for each of the next \<open>n\<close> datagrams.\<close>

definition lost_frame :: "QUICEncryptionLevel \<Rightarrow> tx_frame" where
  "lost_frame level =
     \<lparr>tx_type = FT_CRYPTO, tx_level = level, tx_size = 100, is_probing_frame = False, tx_data_length = 0\<rparr>"

definition lost_flight :: "tx_frame list" where
  "lost_flight = [lost_frame EL_INITIAL, lost_frame EL_HANDSHAKE, lost_frame EL_ONE_RTT]"

definition resending_server :: "nat \<Rightarrow> QUICNetVConnection" where
  "resending_server n =
     (new_connection NET_VCONNECTION_IN)
       \<lparr>handler := h_state_handshake, src_addr_verified := True,
        packet_retransmitter := concat (replicate n lost_flight),
        cc_windows := replicate n 1280\<rparr>"

text \<open>A connection none of whose producers has a frame, the retransmission buffer
  aside.\<close>

definition quiet :: "QUICNetVConnection \<Rightarrow> bool" where
  "quiet c \<longleftrightarrow>
     netvc_context c = NET_VCONNECTION_IN \<and> src_addr_verified c \<and> pmtu c = 1280
     \<and> ip_family c = PF_INET
     \<and> (case handshake_handler c of None \<Rightarrow> False | Some h \<Rightarrow> crypto_frames h = [])
     \<and> pv_frames (path_validator c) = [] \<and> \<not> is_validating (path_validator c)
     \<and> alt_con_manager c = None \<and> fc_frames (local_flow_controller c) = []
     \<and> fc_frames (remote_flow_controller c) = [] \<and> sm_frames (stream_manager c) = []
     \<and> ack_updates (ack_frame_creator c) = []"

definition resend_ready :: "QUICNetVConnection \<Rightarrow> nat \<Rightarrow> bool" where
  "resend_ready c n \<longleftrightarrow>
     quiet c \<and> packet_retransmitter c = concat (replicate n lost_flight)
     \<and> cc_windows c = replicate n 1280"


section \<open>Properties\<close>

subsection \<open>Minimum packet size\<close>

lemma server_packet_size_range:
  "32 \<le> 32 + ((r :: 32 word) AND 0x3f) \<and> 32 + (r AND 0x3f) \<le> 95"
proof -
  have "unat (r AND 0x3f) \<le> 63"
    using word_and_le1 [of r "0x3f"] by (simp add: word_le_nat_alt)
  then show ?thesis
    by (simp add: word_le_nat_alt unat_word_ariths)
qed

lemma low_six_bits_id:
  assumes "32 \<le> (v :: 32 word)" and "v \<le> 95"
  shows "(v - 32) AND 0x3f = v - 32"
proof -
  from assms have "unat (v - 32) \<le> 63" by (simp add: word_le_nat_alt unat_sub)
  then have "v - 32 < 2 ^ 6" by (simp add: word_less_nat_alt)
  then have "(v - 32) AND mask 6 = v - 32" by (simp add: less_mask_eq)
  then show ?thesis by (simp add: mask_eq_exp_minus_1)
qed

text \<open>
  C9 (as amended). \<^verbatim>\<open>minimum_quic_packet_size\<close> returns exactly 1200 on a client
  (outgoing) connection; otherwise it returns \<open>32 + (rand AND 0x3F)\<close>, which lies in
  the range 32 to 95 for every random draw, and every value from 32 to 95 is attained
  by some draw on a server connection.
\<close>

theorem minimum_quic_packet_size_range:
  "(netvc_context c = NET_VCONNECTION_OUT \<longrightarrow> fst (minimum_quic_packet_size c) = 1200)
   \<and> (netvc_context c \<noteq> NET_VCONNECTION_OUT \<longrightarrow>
        fst (minimum_quic_packet_size c) = 32 + (rnd_seq c (rnd_idx c) AND 0x3f)
        \<and> 32 \<le> fst (minimum_quic_packet_size c) \<and> fst (minimum_quic_packet_size c) \<le> 95)
   \<and> (32 \<le> v \<and> v \<le> 95 \<longrightarrow>
        netvc_context (c\<lparr>netvc_context := NET_VCONNECTION_IN, rnd_seq := (\<lambda>i. v - 32)\<rparr>) = NET_VCONNECTION_IN
        \<and> fst (minimum_quic_packet_size
                  (c\<lparr>netvc_context := NET_VCONNECTION_IN, rnd_seq := (\<lambda>i. v - 32)\<rparr>)) = v)"
  using server_packet_size_range [of "rnd_seq c (rnd_idx c)"] low_six_bits_id [of v]
  by (simp add: minimum_quic_packet_size_def MINIMUM_INITIAL_PACKET_SIZE_def)

theorem minimum_quic_packet_size_range_witness:
  "fst (minimum_quic_packet_size (new_connection NET_VCONNECTION_OUT)) = 1200
   \<and> fst (minimum_quic_packet_size (new_connection NET_VCONNECTION_IN)) = 32
   \<and> fst (minimum_quic_packet_size
            ((new_connection NET_VCONNECTION_OUT)
               \<lparr>netvc_context := NET_VCONNECTION_IN, rnd_seq := (\<lambda>i. 95 - 32)\<rparr>)) = 95"
  using minimum_quic_packet_size_range [of "new_connection NET_VCONNECTION_OUT" 95]
    minimum_quic_packet_size_range [of "new_connection NET_VCONNECTION_IN" 32]
  by (simp add: new_connection_def)

text \<open>C9, the claim as stated fails: no random draw makes a server connection return 96.\<close>

theorem minimum_quic_packet_size_never_96:
  "\<not> (\<exists>c. netvc_context c \<noteq> NET_VCONNECTION_OUT \<and> fst (minimum_quic_packet_size c) = 96)"
proof
  assume "\<exists>c. netvc_context c \<noteq> NET_VCONNECTION_OUT \<and> fst (minimum_quic_packet_size c) = 96"
  then obtain c where "netvc_context c \<noteq> NET_VCONNECTION_OUT" "fst (minimum_quic_packet_size c) = 96"
    by blast
  then have "32 + (rnd_seq c (rnd_idx c) AND 0x3f) = 96"
    by (simp add: minimum_quic_packet_size_def)
  with server_packet_size_range [of "rnd_seq c (rnd_idx c)"] show False by simp
qed

subsection \<open>Receiving and acknowledging a packet\<close>

lemma receive_frames_split:
  obtains e a f c1 where
    "receive_frames c (encryption_level (ptype packet)) (payload packet) False False = (e, a, f, c1)"
    "io_kept c c1"
proof -
  obtain e a f c1 where
    r: "receive_frames c (encryption_level (ptype packet)) (payload packet) False False = (e, a, f, c1)"
    by (cases "receive_frames c (encryption_level (ptype packet)) (payload packet) False False") auto
  have "io_kept c c1"
    using io_kept_receive_frames [of c "encryption_level (ptype packet)" "payload packet" False False] r
    by simp
  with r show ?thesis using that by blast
qed

text \<open>
  C10. Whenever \<^verbatim>\<open>_recv_and_ack\<close> returns a connection error (from the frame dispatcher
  or a FLOW_CONTROL_ERROR), the ack frame creator is as it was before the call: the
  packet's number is not registered.
\<close>

theorem recv_and_ack_error_keeps_ack:
  assumes "fst (recv_and_ack c packet) \<noteq> None"
  shows "ack_frame_creator (snd (recv_and_ack c packet)) = ack_frame_creator c"
proof -
  obtain e a f c1 where
    r: "receive_frames c (encryption_level (ptype packet)) (payload packet) False False = (e, a, f, c1)"
    and k: "io_kept c c1"
    by (rule receive_frames_split)
  show ?thesis
    using r k assms by (auto simp: recv_and_ack_def Let_def io_kept_def split: prod.splits if_splits)
qed

theorem recv_and_ack_error_keeps_ack_witness:
  "fst (recv_and_ack established_client (rx_packet PT_PROTECTED 3 [NEW_CONNECTION_ID QUICConnectionId_ZERO]))
     \<noteq> None
   \<and> ack_frame_creator
        (snd (recv_and_ack established_client (rx_packet PT_PROTECTED 3 [NEW_CONNECTION_ID QUICConnectionId_ZERO])))
       = ack_frame_creator established_client"
  using recv_and_ack_error_keeps_ack
          [of established_client "rx_packet PT_PROTECTED 3 [NEW_CONNECTION_ID QUICConnectionId_ZERO]"]
  by (simp add: recv_and_ack_def established_client_def rx_packet_def new_connection_def
      interests_def handle_frame_new_connection_id_def Let_def)

text \<open>
  C4 (as amended). For every packet of type RETRY processed by \<^verbatim>\<open>_recv_and_ack\<close>: when
  the call returns no error, the ack frame creator is updated with
  \<open>should_send_ack = false\<close> for that packet's number; when it returns an error (from
  the dispatcher or a FLOW_CONTROL_ERROR), the ack frame creator is not updated. Either
  way a RETRY packet never elicits an acknowledgement.
\<close>

theorem recv_and_ack_retry:
  assumes "ptype packet = PT_RETRY"
  shows "(fst (recv_and_ack c packet) = None \<longrightarrow>
            ack_updates (ack_frame_creator (snd (recv_and_ack c packet)))
              = ack_updates (ack_frame_creator c) @ [(encryption_level PT_RETRY, packet_number packet, False)])
         \<and> (fst (recv_and_ack c packet) \<noteq> None \<longrightarrow>
            ack_updates (ack_frame_creator (snd (recv_and_ack c packet))) = ack_updates (ack_frame_creator c))"
proof -
  obtain e a f c1 where
    r: "receive_frames c (encryption_level (ptype packet)) (payload packet) False False = (e, a, f, c1)"
    and k: "io_kept c c1"
    by (rule receive_frames_split)
  show ?thesis
    using r k assms
    by (auto simp: recv_and_ack_def Let_def io_kept_def ack_update_def split: prod.splits if_splits)
qed

theorem recv_and_ack_retry_witness:
  "ptype retry_with_crypto = PT_RETRY
   \<and> fst (recv_and_ack closing_client retry_with_crypto) = None
   \<and> ack_updates (ack_frame_creator (snd (recv_and_ack closing_client retry_with_crypto)))
       = [(EL_NONE, 7, False)]"
  using recv_and_ack_retry [of retry_with_crypto closing_client]
  by (simp add: recv_and_ack_def closing_client_def retry_with_crypto_def rx_packet_def
      new_connection_def interests_def Let_def)

text \<open>
  C4, the claim as stated fails: a RETRY packet for which the dispatcher returns no
  error, but whose stream bytes exceed the local limit, leaves the ack frame creator
  without any update, not even one with \<open>should_send_ack = false\<close>.
\<close>

theorem recv_and_ack_retry_counterexample:
  "ptype retry_over_limit = PT_RETRY
   \<and> fst (receive_frames closing_client (encryption_level (ptype retry_over_limit))
            (payload retry_over_limit) False False) = None
   \<and> fst (recv_and_ack closing_client retry_over_limit) = Some (trans_error FLOW_CONTROL_ERROR)
   \<and> ack_updates (ack_frame_creator (snd (recv_and_ack closing_client retry_over_limit))) = []"
  by (simp add: recv_and_ack_def closing_client_def retry_over_limit_def rx_packet_def
      new_connection_def interests_def fc_update_def new_flow_controller_def Let_def)




subsection \<open>Handshake completion\<close>

lemma application_started_cluster:
  "application_started c \<Longrightarrow> application_started (snd (complete_handshake_if_possible c))"
  "application_started c \<Longrightarrow> application_started (start_application c)"
  "application_started c \<Longrightarrow> application_started (handle_error c e)"
  "application_started c \<Longrightarrow> application_started (close c e)"
  "application_started c \<Longrightarrow> application_started (switch_to_closing_state c e)"
proof (induct c and c and c e and c e and c e
    rule: complete_handshake_if_possible_start_application_handle_error_close_switch_to_closing_state.induct)
  case (1 c)
  then show ?case
    by (subst complete_handshake_if_possible.simps)
       (auto simp: application_started_init_flow_control_params split: option.splits)
next
  case (2 c)
  then show ?case
    by (subst start_application.simps) simp
next
  case (3 c error)
  then show ?case by simp
next
  case (4 c error)
  then show ?case
    by (subst close.simps) auto
next
  case (5 c error)
  then show ?case
    by (subst switch_to_closing_state.simps)
       (auto simp: Let_def schedule_packet_write_ready_def remove_from_active_queue_def
             set_inactivity_timeout_def schedule_closing_timeout_def)
qed

lemma application_started_start_application: "application_started (start_application c)"
proof (cases "application_started c")
  case True
  then show ?thesis by (simp add: start_application.simps)
next
  case False
  have "application_started (handle_error (c\<lparr>application_started := True\<rparr>) e)" for e
    by (rule application_started_cluster(3)) simp
  with False show ?thesis
    by (subst start_application.simps) (simp add: Let_def)
qed

lemma flow_control_initialized_init:
  "handshake_handler c = Some h \<Longrightarrow>
   flow_control_initialized
     (init_flow_control_params c (local_transport_parameters h) (remote_transport_parameters h)) h"
  by (auto simp: flow_control_initialized_def init_flow_control_params_def
      sm_init_flow_control_params_def fc_set_limit_def Let_def split: option.splits)

lemma flow_control_initialized_cluster:
  "flow_control_initialized c h \<Longrightarrow> flow_control_initialized (snd (complete_handshake_if_possible c)) h"
  "flow_control_initialized c h \<Longrightarrow> flow_control_initialized (start_application c) h"
  "flow_control_initialized c h \<Longrightarrow> flow_control_initialized (handle_error c e) h"
  "flow_control_initialized c h \<Longrightarrow> flow_control_initialized (close c e) h"
  "flow_control_initialized c h \<Longrightarrow> flow_control_initialized (switch_to_closing_state c e) h"
proof (induct c and c and c e and c e and c e
    rule: complete_handshake_if_possible_start_application_handle_error_close_switch_to_closing_state.induct)
  case (1 c)
  have hh: "handshake_handler c = Some h"
    using "1.prems" by (simp add: flow_control_initialized_def)
  show ?case
  proof (cases "handler c = h_state_handshake \<and> is_completed h
                 \<and> \<not> (netvc_context c = NET_VCONNECTION_OUT \<and> \<not> has_remote_tp h)")
    case True
    have "flow_control_initialized
            (start_application
               (init_flow_control_params c (local_transport_parameters h) (remote_transport_parameters h))) h"
      using "1.hyps" [of h] hh True flow_control_initialized_init [OF hh] by auto
    then show ?thesis
      using hh True by (auto simp: complete_handshake_if_possible.simps)
  next
    case False
    have "snd (complete_handshake_if_possible c) = c"
      using hh False by (auto simp: complete_handshake_if_possible.simps)
    then show ?thesis using "1.prems" by simp
  qed
next
  case (2 c)
  show ?case
  proof (cases "application_started c")
    case True
    then show ?thesis using "2.prems" by (simp add: start_application.simps)
  next
    case False
    have s: "flow_control_initialized (c\<lparr>application_started := True\<rparr>) h"
      using "2.prems" by (simp add: flow_control_initialized_def)
    have a: "flow_control_initialized (c\<lparr>application_started := True, app_events := ev\<rparr>) h" for ev
      using "2.prems" by (simp add: flow_control_initialized_def)
    show ?thesis
      using False s a "2.hyps"
      by (subst start_application.simps) (auto simp: Let_def split: option.splits)
  qed
next
  case (3 c error)
  then show ?case by simp
next
  case (4 c error)
  then show ?case
    by (subst close.simps) auto
next
  case (5 c error)
  have "flow_control_initialized (snd (complete_handshake_if_possible c)) h"
    using 5 by simp
  then show ?case
    by (subst switch_to_closing_state.simps)
       (auto simp: flow_control_initialized_def Let_def schedule_packet_write_ready_def
          remove_from_active_queue_def set_inactivity_timeout_def schedule_closing_timeout_def)
qed

lemma init_flow_control_params_keeps:
  "handler (init_flow_control_params c l r) = handler c"
  "netvc_context (init_flow_control_params c l r) = netvc_context c"
  "handshake_handler (init_flow_control_params c l r) = handshake_handler c"
  "app_events (init_flow_control_params c l r) = app_events c"
  "next_protocol_set (init_flow_control_params c l r) = next_protocol_set c"
  "connection_error (init_flow_control_params c l r) = connection_error c"
  by (simp_all add: init_flow_control_params_def Let_def split: option.splits)

lemma start_application_started:
  "application_started c \<Longrightarrow> start_application c = c"
  by (simp add: start_application.simps)

lemma start_application_open:
  assumes "\<not> application_started c" "netvc_context c \<noteq> NET_VCONNECTION_IN"
  shows "start_application c = c\<lparr>application_started := True, app_events := app_events c @ [NET_EVENT_OPEN]\<rparr>"
  using assms by (simp add: start_application.simps Let_def)

lemma start_application_accept:
  assumes "\<not> application_started c" "netvc_context c = NET_VCONNECTION_IN"
    "handshake_handler c = Some h"
    "(case negotiated_application_name h of None \<Rightarrow> IP_PROTO_TAG_HTTP_QUIC | Some n \<Rightarrow> n)
       \<in> set (next_protocol_set c)"
  shows "start_application c = c\<lparr>application_started := True, app_events := app_events c @ [NET_EVENT_ACCEPT]\<rparr>"
  using assms by (simp add: start_application.simps Let_def)

lemma start_application_no_endpoint:
  assumes "\<not> application_started c" "netvc_context c = NET_VCONNECTION_IN"
    "handshake_handler c = Some h" "handler c = h_state_handshake" "is_completed h"
    "(case negotiated_application_name h of None \<Rightarrow> IP_PROTO_TAG_HTTP_QUIC | Some n \<Rightarrow> n)
       \<notin> set (next_protocol_set c)"
  shows "app_events (start_application c) = app_events c"
    and "handler (start_application c) = h_state_connection_closing"
    and "connection_error (start_application c) = Some (trans_error VERSION_NEGOTIATION_ERROR)"
    and "packet_write_ready (start_application c) \<noteq> None"
    and "closing_timeout (start_application c) \<noteq> None"
proof -
  let ?c1 = "c\<lparr>application_started := True\<rparr>"
  have s: "start_application c = switch_to_closing_state ?c1 (trans_error VERSION_NEGOTIATION_ERROR)"
    using assms by (simp add: start_application.simps Let_def close.simps)
  have h: "complete_handshake_if_possible ?c1
           = (0, init_flow_control_params ?c1 (local_transport_parameters h) (remote_transport_parameters h))"
    using assms
    by (simp add: complete_handshake_if_possible.simps start_application_started
        application_started_init_flow_control_params)
  show "app_events (start_application c) = app_events c"
    and "handler (start_application c) = h_state_connection_closing"
    and "connection_error (start_application c) = Some (trans_error VERSION_NEGOTIATION_ERROR)"
    and "packet_write_ready (start_application c) \<noteq> None"
    and "closing_timeout (start_application c) \<noteq> None"
    unfolding s
    by (simp_all add: switch_to_closing_state.simps h Let_def init_flow_control_params_keeps
        schedule_packet_write_ready_def remove_from_active_queue_def set_inactivity_timeout_def
        schedule_closing_timeout_def)
qed

text \<open>
  C8 (as amended). \<^verbatim>\<open>_complete_handshake_if_possible\<close> returns success (0) if and only
  if the connection is not in the handshake state, or the handshake engine reports
  completion and, on the client side, remote transport parameters are present;
  otherwise it returns -1 and changes nothing. Outside the handshake state it returns 0
  without doing anything. On success in the handshake state it initializes the
  connection and stream flow-control limits from the transport parameters and sets
  \<^verbatim>\<open>_application_started\<close>; if the application had not been started, a client sends
  its continuation NET_EVENT_OPEN, and a server sends NET_EVENT_ACCEPT to the endpoint
  of the negotiated application name (\<open>hq\<close> when none was negotiated); a server with no
  endpoint for that name notifies nobody, records VERSION_NEGOTIATION_ERROR and enters
  the closing state, the result still being 0. If the application had been started
  before, no event is sent.
\<close>

theorem complete_handshake_if_possible_result:
  "(fst (complete_handshake_if_possible c) = 0 \<longleftrightarrow>
      handler c \<noteq> h_state_handshake
      \<or> (\<exists>h. handshake_handler c = Some h \<and> is_completed h
              \<and> (netvc_context c = NET_VCONNECTION_OUT \<longrightarrow> has_remote_tp h)))
   \<and> (fst (complete_handshake_if_possible c) \<noteq> 0 \<longrightarrow>
        complete_handshake_if_possible c = (- 1, c))
   \<and> (handler c \<noteq> h_state_handshake \<longrightarrow> complete_handshake_if_possible c = (0, c))
   \<and> (handler c = h_state_handshake \<and> fst (complete_handshake_if_possible c) = 0 \<longrightarrow>
        (\<exists>h. handshake_handler c = Some h
           \<and> flow_control_initialized (snd (complete_handshake_if_possible c)) h
           \<and> application_started (snd (complete_handshake_if_possible c))
           \<and> (application_started c \<longrightarrow>
                app_events (snd (complete_handshake_if_possible c)) = app_events c
                \<and> handler (snd (complete_handshake_if_possible c)) = h_state_handshake)
           \<and> (\<not> application_started c \<and> netvc_context c \<noteq> NET_VCONNECTION_IN \<longrightarrow>
                app_events (snd (complete_handshake_if_possible c)) = app_events c @ [NET_EVENT_OPEN]
                \<and> handler (snd (complete_handshake_if_possible c)) = h_state_handshake)
           \<and> (\<not> application_started c \<and> netvc_context c = NET_VCONNECTION_IN
               \<and> (case negotiated_application_name h of None \<Rightarrow> IP_PROTO_TAG_HTTP_QUIC | Some n \<Rightarrow> n)
                    \<in> set (next_protocol_set c) \<longrightarrow>
                app_events (snd (complete_handshake_if_possible c)) = app_events c @ [NET_EVENT_ACCEPT]
                \<and> handler (snd (complete_handshake_if_possible c)) = h_state_handshake)
           \<and> (\<not> application_started c \<and> netvc_context c = NET_VCONNECTION_IN
               \<and> (case negotiated_application_name h of None \<Rightarrow> IP_PROTO_TAG_HTTP_QUIC | Some n \<Rightarrow> n)
                    \<notin> set (next_protocol_set c) \<longrightarrow>
                app_events (snd (complete_handshake_if_possible c)) = app_events c
                \<and> handler (snd (complete_handshake_if_possible c)) = h_state_connection_closing
                \<and> connection_error (snd (complete_handshake_if_possible c))
                    = Some (trans_error VERSION_NEGOTIATION_ERROR))))"
proof -
  have iff: "fst (complete_handshake_if_possible c) = 0 \<longleftrightarrow>
      handler c \<noteq> h_state_handshake
      \<or> (\<exists>h. handshake_handler c = Some h \<and> is_completed h
              \<and> (netvc_context c = NET_VCONNECTION_OUT \<longrightarrow> has_remote_tp h))"
    by (auto simp: complete_handshake_if_possible.simps split: option.splits)
  have fail: "fst (complete_handshake_if_possible c) \<noteq> 0 \<longrightarrow>
        complete_handshake_if_possible c = (- 1, c)"
    by (auto simp: complete_handshake_if_possible.simps split: option.splits)
  have out: "handler c \<noteq> h_state_handshake \<longrightarrow> complete_handshake_if_possible c = (0, c)"
    by (simp add: complete_handshake_if_possible.simps)
  have ok: "\<exists>h. handshake_handler c = Some h
           \<and> flow_control_initialized (snd (complete_handshake_if_possible c)) h
           \<and> application_started (snd (complete_handshake_if_possible c))
           \<and> (application_started c \<longrightarrow>
                app_events (snd (complete_handshake_if_possible c)) = app_events c
                \<and> handler (snd (complete_handshake_if_possible c)) = h_state_handshake)
           \<and> (\<not> application_started c \<and> netvc_context c \<noteq> NET_VCONNECTION_IN \<longrightarrow>
                app_events (snd (complete_handshake_if_possible c)) = app_events c @ [NET_EVENT_OPEN]
                \<and> handler (snd (complete_handshake_if_possible c)) = h_state_handshake)
           \<and> (\<not> application_started c \<and> netvc_context c = NET_VCONNECTION_IN
               \<and> (case negotiated_application_name h of None \<Rightarrow> IP_PROTO_TAG_HTTP_QUIC | Some n \<Rightarrow> n)
                    \<in> set (next_protocol_set c) \<longrightarrow>
                app_events (snd (complete_handshake_if_possible c)) = app_events c @ [NET_EVENT_ACCEPT]
                \<and> handler (snd (complete_handshake_if_possible c)) = h_state_handshake)
           \<and> (\<not> application_started c \<and> netvc_context c = NET_VCONNECTION_IN
               \<and> (case negotiated_application_name h of None \<Rightarrow> IP_PROTO_TAG_HTTP_QUIC | Some n \<Rightarrow> n)
                    \<notin> set (next_protocol_set c) \<longrightarrow>
                app_events (snd (complete_handshake_if_possible c)) = app_events c
                \<and> handler (snd (complete_handshake_if_possible c)) = h_state_connection_closing
                \<and> connection_error (snd (complete_handshake_if_possible c))
                    = Some (trans_error VERSION_NEGOTIATION_ERROR))"
    if hs: "handler c = h_state_handshake" and z: "fst (complete_handshake_if_possible c) = 0"
  proof -
    from hs z iff obtain h where
      h: "handshake_handler c = Some h" "is_completed h"
         "netvc_context c = NET_VCONNECTION_OUT \<longrightarrow> has_remote_tp h"
      by blast
    define c0 where
      "c0 = init_flow_control_params c (local_transport_parameters h) (remote_transport_parameters h)"
    have r: "snd (complete_handshake_if_possible c) = start_application c0"
      using hs h by (auto simp: complete_handshake_if_possible.simps c0_def)
    have k: "handler c0 = h_state_handshake" "netvc_context c0 = netvc_context c"
      "handshake_handler c0 = Some h" "app_events c0 = app_events c"
      "next_protocol_set c0 = next_protocol_set c" "application_started c0 = application_started c"
      using hs h(1)
      by (simp_all add: c0_def init_flow_control_params_keeps application_started_init_flow_control_params)
    have f: "flow_control_initialized (start_application c0) h"
      unfolding c0_def
      using flow_control_initialized_cluster(2) [OF flow_control_initialized_init [OF h(1)]] .
    have a: "application_started (start_application c0)"
      by (rule application_started_start_application)
    have 1: "application_started c \<longrightarrow>
                app_events (start_application c0) = app_events c
                \<and> handler (start_application c0) = h_state_handshake"
      using k by (simp add: start_application_started)
    have 2: "\<not> application_started c \<and> netvc_context c \<noteq> NET_VCONNECTION_IN \<longrightarrow>
                app_events (start_application c0) = app_events c @ [NET_EVENT_OPEN]
                \<and> handler (start_application c0) = h_state_handshake"
      using k by (simp add: start_application_open)
    have 3: "\<not> application_started c \<and> netvc_context c = NET_VCONNECTION_IN
               \<and> (case negotiated_application_name h of None \<Rightarrow> IP_PROTO_TAG_HTTP_QUIC | Some n \<Rightarrow> n)
                    \<in> set (next_protocol_set c) \<longrightarrow>
                app_events (start_application c0) = app_events c @ [NET_EVENT_ACCEPT]
                \<and> handler (start_application c0) = h_state_handshake"
      using k by (simp add: start_application_accept [where h = h])
    have 4: "\<not> application_started c \<and> netvc_context c = NET_VCONNECTION_IN
               \<and> (case negotiated_application_name h of None \<Rightarrow> IP_PROTO_TAG_HTTP_QUIC | Some n \<Rightarrow> n)
                    \<notin> set (next_protocol_set c) \<longrightarrow>
                app_events (start_application c0) = app_events c
                \<and> handler (start_application c0) = h_state_connection_closing
                \<and> connection_error (start_application c0)
                    = Some (trans_error VERSION_NEGOTIATION_ERROR)"
      using k h(2) start_application_no_endpoint(1,2,3) [of c0 h] by simp
    show ?thesis
      unfolding r using h(1) f a 1 2 3 4 by blast
  qed
  show ?thesis
    using iff fail out ok by blast
qed

theorem complete_handshake_if_possible_result_witness:
  "handler handshake_done_client = h_state_handshake
   \<and> fst (complete_handshake_if_possible handshake_done_client) = 0
   \<and> application_started (snd (complete_handshake_if_possible handshake_done_client))
   \<and> current_limit (local_flow_controller (snd (complete_handshake_if_possible handshake_done_client))) = 65536
   \<and> current_limit (remote_flow_controller (snd (complete_handshake_if_possible handshake_done_client))) = 4096
   \<and> app_events (snd (complete_handshake_if_possible handshake_done_client)) = [NET_EVENT_OPEN]
   \<and> app_events (snd (complete_handshake_if_possible handshake_done_server)) = [NET_EVENT_ACCEPT]
   \<and> handler (snd (complete_handshake_if_possible handshake_done_server)) = h_state_handshake
   \<and> fst (complete_handshake_if_possible (handshake_done_server\<lparr>next_protocol_set := []\<rparr>)) = 0
   \<and> app_events (snd (complete_handshake_if_possible (handshake_done_server\<lparr>next_protocol_set := []\<rparr>))) = []
   \<and> handler (snd (complete_handshake_if_possible (handshake_done_server\<lparr>next_protocol_set := []\<rparr>)))
       = h_state_connection_closing
   \<and> fst (complete_handshake_if_possible
            (handshake_done_client\<lparr>handshake_handler := Some new_handshake\<rparr>)) = - 1"
  using complete_handshake_if_possible_result [of handshake_done_client]
    complete_handshake_if_possible_result [of handshake_done_server]
    complete_handshake_if_possible_result [of "handshake_done_server\<lparr>next_protocol_set := []\<rparr>"]
  by (simp add: complete_handshake_if_possible.simps handshake_done_client_def handshake_done_server_def
      new_connection_def new_handshake_def has_remote_tp_def flow_control_initialized_def)

text \<open>
  C8, the claim as stated fails: on an established connection, which is not in the
  handshake state, the function returns success, and it neither initializes the
  flow-control limits nor starts the application.
\<close>

theorem complete_handshake_if_possible_counterexample:
  "fst (complete_handshake_if_possible established_server) = 0
   \<and> handler established_server \<noteq> h_state_handshake
   \<and> snd (complete_handshake_if_possible established_server) = established_server
   \<and> \<not> application_started (snd (complete_handshake_if_possible established_server))
   \<and> current_limit (local_flow_controller (snd (complete_handshake_if_possible established_server))) = - 1"
  by (simp add: complete_handshake_if_possible.simps established_server_def new_connection_def
      new_flow_controller_def)

subsection \<open>Closing a connection\<close>

lemma close_in_closing_or_closed:
  "handler c = h_state_connection_closing \<or> handler c = h_state_connection_closed \<Longrightarrow> close c e = c"
  by (auto simp: close.simps)

text \<open>
  C1, evaluated where it fails. \<^verbatim>\<open>close\<close> on a connection in the draining state is not
  a no-op: it switches the connection to the closing state, records the error and
  schedules an immediate write, and the next PACKET_WRITE_READY event sends a packet
  with the close frame. (In the closing and closed states \<^verbatim>\<open>close\<close> changes nothing:
  \<open>close_in_closing_or_closed\<close>.)
\<close>

theorem close_in_draining:
  "handler draining_server = h_state_connection_draining
   \<and> close draining_server (trans_error INTERNAL_ERROR) \<noteq> draining_server
   \<and> handler (close draining_server (trans_error INTERNAL_ERROR)) = h_state_connection_closing
   \<and> connection_error (close draining_server (trans_error INTERNAL_ERROR)) = Some (trans_error INTERNAL_ERROR)
   \<and> packet_write_ready (close draining_server (trans_error INTERNAL_ERROR)) = Some schedule_imm
   \<and> udp_sent draining_server = []
   \<and> length (udp_sent (state_connection_closing (close draining_server (trans_error INTERNAL_ERROR))
               QUIC_EVENT_PACKET_WRITE_READY)) = 1"
proof -
  have c: "close draining_server (trans_error INTERNAL_ERROR)
           = draining_server\<lparr>connection_error := Some (trans_error INTERNAL_ERROR),
                               packet_write_ready := Some schedule_imm,
                               in_active_queue := False, inactivity_timeout := 0,
                               handler := h_state_connection_closing\<rparr>"
    by (simp add: close.simps switch_to_closing_state.simps complete_handshake_if_possible.simps
        draining_server_def new_connection_def Let_def schedule_packet_write_ready_def
        remove_from_active_queue_def set_inactivity_timeout_def schedule_closing_timeout_def)
  show ?thesis
    unfolding c
    by (simp add: draining_server_def new_connection_def state_closing_send_packet_def
        close_packet_write_ready_def packetize_closing_frame_def build_packet_def
        build_packet_of_type_def create_packet_def Let_def)
qed

subsection \<open>The draining state\<close>













subsection \<open>The closing state\<close>

lemma closing_loop_empty:
  "packet_recv_queue c = [] \<Longrightarrow> state_closing_receive_packet_loop c = c"
  by (subst state_closing_receive_packet_loop.simps) simp

lemma recv_and_ack_max_data:
  "recv_and_ack c (max_data_packet n)
   = (None, (schedule_packet_write_ready
               (c\<lparr>remote_flow_controller := fc_forward_limit (remote_flow_controller c) 100000\<rparr>) False)
             \<lparr>ack_frame_creator := ack_update (ack_frame_creator c) EL_ONE_RTT n True\<rparr>)"
  by (simp add: recv_and_ack_def max_data_packet_def rx_packet_def interests_def Let_def
      schedule_packet_write_ready_def)

text \<open>A closing connection at rest receives a packet with a MAX_DATA frame: the write
  event is scheduled whether or not the count has reached the window.\<close>

lemma closing_read_max_data:
  assumes "closing_idle c fp"
  shows "packet_recv_queue (state_closing_receive_packet_loop
                             (handle_received_packet c (SUCCESS, max_data_packet n))) = []
     \<and> packet_write_ready (state_closing_receive_packet_loop
                             (handle_received_packet c (SUCCESS, max_data_packet n))) = Some schedule_imm
     \<and> the_final_packet (state_closing_receive_packet_loop
                             (handle_received_packet c (SUCCESS, max_data_packet n))) = Some fp
     \<and> connection_error (state_closing_receive_packet_loop
                             (handle_received_packet c (SUCCESS, max_data_packet n))) = None
     \<and> udp_sent (state_closing_receive_packet_loop
                             (handle_received_packet c (SUCCESS, max_data_packet n))) = udp_sent c
     \<and> handler (state_closing_receive_packet_loop
                             (handle_received_packet c (SUCCESS, max_data_packet n))) = handler c
     \<and> state_closing_recv_packet_window (state_closing_receive_packet_loop
                             (handle_received_packet c (SUCCESS, max_data_packet n)))
         = (if state_closing_recv_packet_window c < 256
               \<and> state_closing_recv_packet_window c \<le> state_closing_recv_packet_count c + 1
            then push_bit 1 (state_closing_recv_packet_window c)
            else state_closing_recv_packet_window c)
     \<and> state_closing_recv_packet_count (state_closing_receive_packet_loop
                             (handle_received_packet c (SUCCESS, max_data_packet n)))
         = (if state_closing_recv_packet_window c < 256
               \<and> state_closing_recv_packet_window c \<le> state_closing_recv_packet_count c + 1
            then 0
            else state_closing_recv_packet_count c + 1)"
proof -
  define c0 where "c0 = handle_received_packet c (SUCCESS, max_data_packet n)"
  obtain c1 where d: "dequeue_recv_packet c0 = (Some (max_data_packet n), SUCCESS, c1)"
    and c1: "packet_recv_queue c1 = []" "packet_write_ready c1 = None" "the_final_packet c1 = Some fp"
      "connection_error c1 = None" "udp_sent c1 = udp_sent c" "handler c1 = handler c"
      "state_closing_recv_packet_window c1 = state_closing_recv_packet_window c"
      "state_closing_recv_packet_count c1 = state_closing_recv_packet_count c"
    using assms
    by (auto simp: c0_def handle_received_packet_def dequeue_recv_packet_def dequeue_def Let_def
        closing_idle_def update_peer_cid_def)
  define c2 where "c2 = snd (recv_and_ack c1 (max_data_packet n))"
  have c2: "packet_recv_queue c2 = []" "packet_write_ready c2 = Some schedule_imm"
    "the_final_packet c2 = Some fp" "connection_error c2 = None" "udp_sent c2 = udp_sent c"
    "handler c2 = handler c"
    "state_closing_recv_packet_window c2 = state_closing_recv_packet_window c"
    "state_closing_recv_packet_count c2 = state_closing_recv_packet_count c"
    using c1 by (simp_all add: c2_def recv_and_ack_max_data schedule_packet_write_ready_def)
  define c3 where "c3 = c2\<lparr>state_closing_recv_packet_count := state_closing_recv_packet_count c2 + 1\<rparr>"
  have q0: "packet_recv_queue c0 \<noteq> []" by (simp add: c0_def handle_received_packet_def)
  have pt: "ptype (max_data_packet n) \<noteq> PT_VERSION_NEGOTIATION"
    by (simp add: max_data_packet_def rx_packet_def)
  have l: "state_closing_receive_packet_loop c0
           = (if state_closing_recv_packet_window c3 < STATE_CLOSING_MAX_RECV_PKT_WIND
                 \<and> state_closing_recv_packet_window c3 \<le> state_closing_recv_packet_count c3
              then schedule_packet_write_ready
                     (c3\<lparr>state_closing_recv_packet_count := 0,
                         state_closing_recv_packet_window := push_bit 1 (state_closing_recv_packet_window c3)\<rparr>)
                     True
              else state_closing_receive_packet_loop c3)"
    using q0 d pt
    by (subst state_closing_receive_packet_loop.simps) (simp add: Let_def c2_def c3_def)
  have e: "state_closing_receive_packet_loop c3 = c3"
    using c2 by (intro closing_loop_empty) (simp add: c3_def)
  have w: "STATE_CLOSING_MAX_RECV_PKT_WIND = 256"
    by (simp add: STATE_CLOSING_MAX_RECV_PKT_WIND_def STATE_CLOSING_MAX_SEND_PKT_NUM_def)
  show ?thesis
    unfolding c0_def [symmetric] l e
    using c2 by (simp add: c3_def schedule_packet_write_ready_def w)
qed

lemma closing_round_max_data:
  assumes "closing_idle c fp"
  shows "closing_idle (closing_rounds c [max_data_packet n]) fp
         \<and> udp_sent (closing_rounds c [max_data_packet n]) = udp_sent c @ [SentPacket fp]
         \<and> handler (closing_rounds c [max_data_packet n]) = handler c"
  using closing_read_max_data [OF assms, of n]
  by (simp add: closing_idle_def deliver_write_ready_closing_def state_closing_receive_packet_def
      state_closing_send_packet_def close_packet_write_ready_def packetize_closing_frame_def)

text \<open>Every received packet with a MAX_DATA frame makes a closing connection send its
  close packet once more, for any number of such packets.\<close>

lemma closing_rounds_max_data:
  assumes "closing_idle c fp"
  shows "closing_idle (closing_rounds c (map max_data_packet ns)) fp
         \<and> udp_sent (closing_rounds c (map max_data_packet ns))
             = udp_sent c @ replicate (length ns) (SentPacket fp)
         \<and> handler (closing_rounds c (map max_data_packet ns)) = handler c"
  using assms
proof (induction ns arbitrary: c)
  case Nil
  then show ?case by simp
next
  case (Cons n ns)
  have r: "closing_rounds c (map max_data_packet (n # ns))
           = closing_rounds (closing_rounds c [max_data_packet n]) (map max_data_packet ns)"
    by simp
  have s: "closing_idle (closing_rounds c [max_data_packet n]) fp"
    "udp_sent (closing_rounds c [max_data_packet n]) = udp_sent c @ [SentPacket fp]"
    "handler (closing_rounds c [max_data_packet n]) = handler c"
    using closing_round_max_data [OF Cons.prems, of n] by simp_all
  show ?case
    unfolding r using Cons.IH [OF s(1)] s(2,3) by (simp add: replicate_app_Cons_same)
qed

lemma closing_round_max_data_window:
  assumes "closing_idle c fp"
  shows "state_closing_recv_packet_window (closing_rounds c [max_data_packet n])
         = (if state_closing_recv_packet_window c < 256
               \<and> state_closing_recv_packet_window c \<le> state_closing_recv_packet_count c + 1
            then push_bit 1 (state_closing_recv_packet_window c)
            else state_closing_recv_packet_window c)
     \<and> state_closing_recv_packet_count (closing_rounds c [max_data_packet n])
         = (if state_closing_recv_packet_window c < 256
               \<and> state_closing_recv_packet_window c \<le> state_closing_recv_packet_count c + 1
            then 0
            else state_closing_recv_packet_count c + 1)"
  using closing_read_max_data [OF assms, of n]
  by (simp add: closing_idle_def deliver_write_ready_closing_def state_closing_receive_packet_def
      state_closing_send_packet_def close_packet_write_ready_def packetize_closing_frame_def)

lemma closing_server_facts:
  "closing_idle closing_server close_packet"
  "udp_sent closing_server = [SentPacket close_packet]"
  "handler closing_server = h_state_connection_closing"
  "state_closing_recv_packet_window closing_server = 1"
  "state_closing_recv_packet_count closing_server = 0"
  by (simp_all add: closing_server_def deliver_write_ready_closing_def close.simps
      switch_to_closing_state.simps complete_handshake_if_possible.simps established_server_def
      new_connection_def Let_def schedule_packet_write_ready_def remove_from_active_queue_def
      set_inactivity_timeout_def schedule_closing_timeout_def state_closing_send_packet_def
      close_packet_write_ready_def packetize_closing_frame_def build_packet_def
      build_packet_of_type_def create_packet_def new_loss_detector_def largest_acked_packet_number_def
      close_frame_size_def trans_error_def closing_idle_def close_packet_def)

text \<open>
  C3, evaluated where it fails. A server in the closing state has sent its close packet
  once. Nine packets arrive, one per round, each with a MAX_DATA frame: the close packet
  is sent again in every round, nine times, although the backoff allows three sends for
  nine packets and eight in all. At the second packet the count (1) has not reached the
  window (2), and the write is scheduled all the same.
\<close>

theorem closing_max_data_resends:
  "handler closing_server = h_state_connection_closing
   \<and> udp_sent closing_server = [SentPacket close_packet]
   \<and> udp_sent (closing_rounds closing_server (map max_data_packet [1, 2, 3, 4, 5, 6, 7, 8, 9]))
       = replicate 10 (SentPacket close_packet)
   \<and> handler (closing_rounds closing_server (map max_data_packet [1, 2, 3, 4, 5, 6, 7, 8, 9]))
       = h_state_connection_closing
   \<and> state_closing_recv_packet_window
        (state_connection_closing
           (handle_received_packet (closing_rounds closing_server [max_data_packet 1])
              (SUCCESS, max_data_packet 2))
           QUIC_EVENT_PACKET_READ_READY) = 2
   \<and> state_closing_recv_packet_count
        (state_connection_closing
           (handle_received_packet (closing_rounds closing_server [max_data_packet 1])
              (SUCCESS, max_data_packet 2))
           QUIC_EVENT_PACKET_READ_READY) = 1
   \<and> packet_write_ready
        (state_connection_closing
           (handle_received_packet (closing_rounds closing_server [max_data_packet 1])
              (SUCCESS, max_data_packet 2))
           QUIC_EVENT_PACKET_READ_READY) = Some schedule_imm"
proof -
  let ?c1 = "closing_rounds closing_server [max_data_packet 1]"
  let ?ns = "[1, 2, 3, 4, 5, 6, 7, 8, 9] :: 64 word list"
  let ?c2 = "state_connection_closing (handle_received_packet ?c1 (SUCCESS, max_data_packet 2))
               QUIC_EVENT_PACKET_READ_READY"
  have i1: "closing_idle ?c1 close_packet"
    using closing_round_max_data [OF closing_server_facts(1), of 1] by blast
  have w1: "state_closing_recv_packet_window ?c1 = 2" "state_closing_recv_packet_count ?c1 = 0"
    using closing_round_max_data_window [OF closing_server_facts(1), of 1]
    by (simp_all only: closing_server_facts) simp_all
  have r: "udp_sent (closing_rounds closing_server (map max_data_packet ?ns))
             = udp_sent closing_server @ replicate (length ?ns) (SentPacket close_packet)"
    "handler (closing_rounds closing_server (map max_data_packet ?ns)) = handler closing_server"
    using closing_rounds_max_data [OF closing_server_facts(1), of ?ns] by blast+
  have n: "udp_sent closing_server @ replicate (length ?ns) (SentPacket close_packet)
           = replicate 10 (SentPacket close_packet)"
    by (simp add: closing_server_facts(2) numeral_eq_Suc)
  have c2: "?c2 = state_closing_receive_packet_loop
                    (handle_received_packet ?c1 (SUCCESS, max_data_packet 2))"
    by (simp only: state_connection_closing.simps state_closing_receive_packet_def snd_conv)
  have s: "state_closing_recv_packet_window ?c2 = 2" "state_closing_recv_packet_count ?c2 = 1"
    "packet_write_ready ?c2 = Some schedule_imm"
    unfolding c2 using closing_read_max_data [OF i1, of 2]
    by (simp_all only: w1) (simp_all add: word_le_nat_alt)
  show ?thesis
    using r n s closing_server_facts(2,3) by (simp only: simp_thms)
qed

subsection \<open>Packetizing and sending\<close>

text \<open>
  C6. For every encryption level, \<^verbatim>\<open>_packetize_frames\<close> returns the null packet whenever
  \<open>max_packet_size \<le> 62\<close> (\<^verbatim>\<open>MAX_PACKET_OVERHEAD\<close>), and leaves the connection as it
  was: no producer is asked for a frame and nothing is built.
\<close>

theorem packetize_frames_small:
  "max_packet_size \<le> 62 \<Longrightarrow> packetize_frames c level max_packet_size = (None, c)"
  by (simp add: packetize_frames_def MAX_PACKET_OVERHEAD_def)

theorem packetize_frames_small_witness:
  "(62 :: 64 word) \<le> 62
   \<and> packetize_frames established_server EL_ONE_RTT 62 = (None, established_server)"
  using packetize_frames_small [of 62 established_server EL_ONE_RTT] by simp

lemma sent_log_kept_stream_frames_loop: "sent_log_kept c (fst (stream_frames_loop c level s))"
proof (induction c level s rule: stream_frames_loop.induct)
  case (1 c level s)
  obtain fr sm where g: "sm_generate_frame (stream_manager c) level (fc_credit (remote_flow_controller c))
             (max_frame_size s) = (fr, sm)"
    by (cases "sm_generate_frame (stream_manager c) level (fc_credit (remote_flow_controller c))
             (max_frame_size s)")
  show ?case
  proof (cases fr)
    case None
    then show ?thesis using g
      by (subst stream_frames_loop.simps) (simp add: sent_log_kept_def)
  next
    case (Some frame)
    show ?thesis
      using g Some "1.IH" [OF g [symmetric] Some refl refl refl refl]
      by (subst stream_frames_loop.simps) (auto simp: sent_log_kept_def Let_def)
  qed
qed

lemma sent_log_kept_blocks:
  "sent_log_kept c (fst (packetize_crypto c level s))"
  "sent_log_kept c (fst (packetize_path c level s))"
  "sent_log_kept c (fst (packetize_new_connection_id c level s))"
  "sent_log_kept c (fst (packetize_lost_frames c level s))"
  "sent_log_kept c (fst (packetize_max_data c level s))"
  "sent_log_kept c (fst (packetize_blocked c level s))"
  "sent_log_kept c (fst (packetize_stream c level s))"
  "sent_log_kept c (fst (packetize_ack c level s))"
  "sent_log_kept c (snd (packetize_schedule c level m s a))"
  using sent_log_kept_stream_frames_loop [of c level s]
  by (auto simp: sent_log_kept_def packetize_crypto_def packetize_path_def
      packetize_new_connection_id_def packetize_lost_frames_def packetize_max_data_def
      packetize_blocked_def packetize_stream_def packetize_ack_def packetize_schedule_def
      build_packet_def build_packet_of_type_def create_packet_def minimum_quic_packet_size_def
      Let_def split: option.splits prod.splits QUICPacketType.splits if_splits)

lemma sent_log_kept_trans: "sent_log_kept a b \<Longrightarrow> sent_log_kept b c \<Longrightarrow> sent_log_kept a c"
  by (simp add: sent_log_kept_def)

lemma sent_log_kept_packetize_frames: "sent_log_kept c (snd (packetize_frames c level m))"
proof (cases "m \<le> ucast MAX_PACKET_OVERHEAD")
  case True
  then show ?thesis by (simp add: packetize_frames_def sent_log_kept_def)
next
  case False
  define s0 where "s0 = \<lparr>max_frame_size = min (m - ucast MAX_PACKET_OVERHEAD)
                                      (maximum_stream_frame_data_size c),
                  probing = False, frame_count = 0, len = 0\<rparr>"
  obtain c1 s1 where b1: "packetize_crypto c level s0 = (c1, s1)" by (cases "packetize_crypto c level s0")
  obtain c2 s2 where b2: "packetize_path c1 level s1 = (c2, s2)" by (cases "packetize_path c1 level s1")
  obtain c3 s3 where b3: "packetize_new_connection_id c2 level s2 = (c3, s3)"
    by (cases "packetize_new_connection_id c2 level s2")
  obtain c4 s4 where b4: "packetize_lost_frames c3 level s3 = (c4, s4)"
    by (cases "packetize_lost_frames c3 level s3")
  obtain c5 s5 where b5: "packetize_max_data c4 level s4 = (c5, s5)"
    by (cases "packetize_max_data c4 level s4")
  obtain c6 s6 where b6: "packetize_blocked c5 level s5 = (c6, s6)"
    by (cases "packetize_blocked c5 level s5")
  obtain c7 s7 where b7: "packetize_stream c6 level s6 = (c7, s7)"
    by (cases "packetize_stream c6 level s6")
  obtain c8 s8 a where b8: "packetize_ack c7 level s7 = (c8, s8, a)"
    by (cases "packetize_ack c7 level s7")
  have e: "packetize_frames c level m = packetize_schedule c8 level m s8 a"
    using False b1 b2 b3 b4 b5 b6 b7 b8 by (simp add: packetize_frames_def s0_def [symmetric])
  have "sent_log_kept c c1" using sent_log_kept_blocks(1) [of c level s0] b1 by simp
  moreover have "sent_log_kept c1 c2" using sent_log_kept_blocks(2) [of c1 level s1] b2 by simp
  moreover have "sent_log_kept c2 c3" using sent_log_kept_blocks(3) [of c2 level s2] b3 by simp
  moreover have "sent_log_kept c3 c4" using sent_log_kept_blocks(4) [of c3 level s3] b4 by simp
  moreover have "sent_log_kept c4 c5" using sent_log_kept_blocks(5) [of c4 level s4] b5 by simp
  moreover have "sent_log_kept c5 c6" using sent_log_kept_blocks(6) [of c5 level s5] b6 by simp
  moreover have "sent_log_kept c6 c7" using sent_log_kept_blocks(7) [of c6 level s6] b7 by simp
  moreover have "sent_log_kept c7 c8" using sent_log_kept_blocks(8) [of c7 level s7] b8 by simp
  moreover have "sent_log_kept c8 (snd (packetize_schedule c8 level m s8 a))"
    by (rule sent_log_kept_blocks(9))
  ultimately show ?thesis
    unfolding e by (simp add: sent_log_kept_def)
qed

lemma packetize_schedule_no_packet:
  "packet_type level \<noteq> PT_INITIAL \<Longrightarrow> packet_type level \<noteq> PT_HANDSHAKE
   \<Longrightarrow> packet_type level \<noteq> PT_PROTECTED
   \<Longrightarrow> fst (packetize_schedule c level m s a) = None"
  by (cases level)
     (auto simp: packetize_schedule_def build_packet_def build_packet_of_type_def Let_def
        split: prod.splits)

lemma packetize_frames_zero_rtt: "fst (packetize_frames c EL_ZERO_RTT m) = None"
  using packetize_schedule_no_packet [of EL_ZERO_RTT]
  by (simp add: packetize_frames_def Let_def split: prod.splits)


lemma packets_handed_on_packet_sent:
  "packets_handed (c\<lparr>loss_detector := (loss_detector c)(index := on_packet_sent (loss_detector c index) p)\<rparr>)
   = Suc (packets_handed c)"
  by (cases index) (simp_all add: packets_handed_def on_packet_sent_def)

lemma send_packets_of_levels_handed:
  "send_packets_of_levels levels c n w pc e = (c', w', pc', e')
   \<Longrightarrow> \<exists>k \<le> length (filter (\<lambda>l. l \<noteq> EL_ZERO_RTT) levels).
         pc' = pc + of_nat k \<and> packets_handed c' = packets_handed c + k \<and> udp_sent c' = udp_sent c"
proof (induction levels arbitrary: c w pc)
  case Nil
  then show ?case by simp
next
  case (Cons level levels)
  show ?case
  proof (cases "netvc_context c = NET_VCONNECTION_IN \<and> \<not> is_src_addr_verified c
         \<and> MAX_PACKETS_WITHOUT_SRC_ADDR_VARIDATION \<le> handshake_packets_sent c")
    case True
    then have "pc' = pc + of_nat 0 \<and> packets_handed c' = packets_handed c + 0 \<and> udp_sent c' = udp_sent c"
      using Cons.prems by auto
    then show ?thesis by blast
  next
    case False
    obtain packet c1 where p: "packetize_frames c level (ucast (n - w)) = (packet, c1)"
      by (cases "packetize_frames c level (ucast (n - w))")
    have k1: "loss_detector c1 = loss_detector c" "udp_sent c1 = udp_sent c"
      using sent_log_kept_packetize_frames [of c level "ucast (n - w)"] p
      by (simp_all add: sent_log_kept_def)
    then have h1: "packets_handed c1 = packets_handed c" by (simp add: packets_handed_def)
    show ?thesis
    proof (cases packet)
      case None
      then have "send_packets_of_levels levels c1 n w pc e = (c', w', pc', e')"
        using Cons.prems False p by (simp add: Let_def)
      from Cons.IH [OF this] obtain k where
        "k \<le> length (filter (\<lambda>l. l \<noteq> EL_ZERO_RTT) levels)" "pc' = pc + of_nat k"
        "packets_handed c' = packets_handed c1 + k" "udp_sent c' = udp_sent c1" by blast
      then have "k \<le> length (filter (\<lambda>l. l \<noteq> EL_ZERO_RTT) (level # levels)) \<and> pc' = pc + of_nat k
                 \<and> packets_handed c' = packets_handed c + k \<and> udp_sent c' = udp_sent c"
        using h1 k1 by simp
      then show ?thesis by blast
    next
      case (Some pk)
      have nz: "level \<noteq> EL_ZERO_RTT"
        using packetize_frames_zero_rtt [of c "ucast (n - w)"] p Some by auto
      define c2 where "c2 = (if netvc_context c1 = NET_VCONNECTION_IN
                            \<and> (tx_ptype pk = PT_INITIAL \<or> tx_ptype pk = PT_HANDSHAKE)
                         then c1\<lparr>handshake_packets_sent := handshake_packets_sent c1 + 1\<rparr>
                         else c1)"
      define c3 where "c3 = c2\<lparr>loss_detector :=
                             (loss_detector c2)(pn_space_index level :=
                                on_packet_sent (loss_detector c2 (pn_space_index level)) pk)\<rparr>"
      have h2: "packets_handed c2 = packets_handed c" "udp_sent c2 = udp_sent c"
        using h1 k1 by (simp_all add: c2_def packets_handed_def)
      have h3: "packets_handed c3 = Suc (packets_handed c)" "udp_sent c3 = udp_sent c"
        using h2 by (simp_all add: c3_def packets_handed_on_packet_sent)
      have "send_packets_of_levels levels c3 n (w + ucast (packet_store_len pk)) (pc + 1) e = (c', w', pc', e')"
        using Cons.prems False p Some by (simp add: Let_def c2_def c3_def)
      from Cons.IH [OF this] obtain k where
        k: "k \<le> length (filter (\<lambda>l. l \<noteq> EL_ZERO_RTT) levels)" "pc' = pc + 1 + of_nat k"
        "packets_handed c' = packets_handed c3 + k" "udp_sent c' = udp_sent c3" by blast
      then have "Suc k \<le> length (filter (\<lambda>l. l \<noteq> EL_ZERO_RTT) (level # levels))
                 \<and> pc' = pc + of_nat (Suc k)
                 \<and> packets_handed c' = packets_handed c + Suc k \<and> udp_sent c' = udp_sent c"
        using nz h3 by simp
      then show ?thesis by blast
    qed
  qed
qed

lemma send_loop_bound:
  "state_common_send_packet_loop c pc e = (c', pc') \<Longrightarrow> unat pc \<le> 34
   \<Longrightarrow> unat pc \<le> unat pc' \<and> unat pc' \<le> 34
       \<and> packets_handed c' + unat pc = packets_handed c + unat pc'
       \<and> length (udp_sent c') + min 32 (unat pc) \<le> length (udp_sent c) + 32"
proof (induction c pc e arbitrary: c' pc' rule: state_common_send_packet_loop.induct)
  case (1 c packet_count error)
  show ?case
  proof (cases "error = 0 \<and> packet_count < PACKET_PER_EVENT")
    case False
    have "state_common_send_packet_loop c packet_count error = (c, packet_count)"
      by (subst state_common_send_packet_loop.simps) (rule if_not_P [OF False])
    then have "c' = c" "pc' = packet_count"
      using "1.prems"(1) by simp_all
    then show ?thesis using "1.prems"(2) by simp
  next
    case True
    then have lt: "unat packet_count < 32"
      by (simp add: PACKET_PER_EVENT_def word_less_nat_alt)
    obtain window c1 where ow: "open_window c = (window, c1)" by (cases "open_window c")
    have k1: "loss_detector c1 = loss_detector c" "udp_sent c1 = udp_sent c"
      using ow by (auto simp: open_window_def split: list.splits)
    then have h1: "packets_handed c1 = packets_handed c" by (simp add: packets_handed_def)
    show ?thesis
    proof (cases "window = 0")
      case True
      then have "c' = c1" "pc' = packet_count"
        using "1.prems"(1) \<open>error = 0 \<and> packet_count < PACKET_PER_EVENT\<close> ow
        by (simp_all add: state_common_send_packet_loop.simps)
      then show ?thesis using "1.prems"(2) h1 k1 lt by simp
    next
      case False
      obtain c2 written pc1 e1 where
        sl: "send_packets_of_levels QUIC_ENCRYPTION_LEVELS c1 (min window (pmtu c1)) 0 packet_count error
             = (c2, written, pc1, e1)"
        by (cases "send_packets_of_levels QUIC_ENCRYPTION_LEVELS c1 (min window (pmtu c1)) 0
                     packet_count error") auto
      from send_packets_of_levels_handed [OF sl] obtain k where
        k: "k \<le> 3" "pc1 = packet_count + of_nat k" "packets_handed c2 = packets_handed c1 + k"
          "udp_sent c2 = udp_sent c1"
        by (auto simp: QUIC_ENCRYPTION_LEVELS_def)
      have u1: "unat pc1 = unat packet_count + k"
        using k(1,2) lt unat_add_few [of packet_count k] by simp
      show ?thesis
      proof (cases "written = 0")
        case True
        then have "c' = c2" "pc' = pc1"
          using "1.prems"(1) \<open>error = 0 \<and> packet_count < PACKET_PER_EVENT\<close> ow False sl
          by (simp_all add: state_common_send_packet_loop.simps Let_def)
        then show ?thesis using u1 k h1 k1 lt by simp
      next
        case wn: False
        let ?c3 = "c2\<lparr>udp_sent := udp_sent c2 @ [SentPayload written]\<rparr>"
        have r: "state_common_send_packet_loop ?c3 pc1 e1 = (c', pc')"
          using "1.prems"(1) \<open>error = 0 \<and> packet_count < PACKET_PER_EVENT\<close> ow False sl wn
          by (simp add: state_common_send_packet_loop.simps [of c] Let_def)
        have gt: "unat packet_count < unat pc1"
          using send_packets_of_levels_progress [OF sl _ wn] True by simp
        have b: "unat pc1 \<le> 34" using u1 k(1) lt by simp
        have ih: "unat pc1 \<le> unat pc' \<and> unat pc' \<le> 34
                  \<and> packets_handed c' + unat pc1 = packets_handed ?c3 + unat pc'
                  \<and> length (udp_sent c') + min 32 (unat pc1) \<le> length (udp_sent ?c3) + 32"
          using "1.IH" [OF True ow [symmetric] False refl sl [symmetric] refl refl wn r b] .
        have h3: "packets_handed ?c3 = packets_handed c + k"
          using k(3) h1 by (simp add: packets_handed_def)
        have ds: "length (udp_sent ?c3) = Suc (length (udp_sent c))"
          using k(4) k1(2) by simp
        show ?thesis
          using ih h3 u1 gt lt unfolding ds by (simp add: min_def split: if_splits)
      qed
    qed
  qed
qed

lemma store_frames_none:
  "q = [] \<or> tx_level (hd q) \<noteq> level \<Longrightarrow> store_frames_while_generated q level s = (q, s)"
  by (subst store_frames_while_generated.simps) (auto simp: generate_frame_def split: list.splits)

lemma store_frames_one:
  assumes "tx_level f = level" "0 < tx_size f" "tx_size f \<le> max_frame_size s"
    "rest = [] \<or> tx_level (hd rest) \<noteq> level"
  shows "store_frames_while_generated (f # rest) level s = (rest, count_and_store_frame s f)"
  using assms store_frames_none [of rest level "count_and_store_frame s f"]
  by (subst store_frames_while_generated.simps) (simp add: generate_frame_def)

lemma stream_frames_loop_none:
  "sm_frames (stream_manager c) = [] \<Longrightarrow> stream_frames_loop c level s = (c, s)"
  by (subst stream_frames_loop.simps) (simp add: sm_generate_frame_def generate_frame_def)

lemma packetize_crypto_quiet:
  assumes "quiet c"
  shows "packetize_crypto c level s = (c, s)"
proof -
  obtain h where h: "handshake_handler c = Some h" "crypto_frames h = []"
    using assms by (auto simp: quiet_def split: option.splits)
  have "h\<lparr>crypto_frames := []\<rparr> = h" using h(2) by simp
  then show ?thesis
    using h by (simp add: packetize_crypto_def store_frames_none)
qed

lemma packetize_quiet_none:
  assumes "quiet c" "packet_retransmitter c = [] \<or> tx_level (hd (packet_retransmitter c)) \<noteq> level"
  shows "packetize_frames c level m = (None, c)"
  using assms store_frames_none [OF assms(2)]
  by (simp add: packetize_frames_def quiet_def Let_def packetize_crypto_quiet [OF assms(1)] packetize_path_def
      packetize_new_connection_id_def packetize_lost_frames_def packetize_max_data_def
      packetize_blocked_def packetize_stream_def packetize_ack_def packetize_schedule_def
      generate_frame_def will_generate_frame_def stream_frames_loop_none
      ack_will_generate_frame_def)


lemma max_frame_size_quiet:
  assumes "quiet c" "162 \<le> m"
  shows "\<not> m \<le> ucast MAX_PACKET_OVERHEAD"
    and "100 \<le> min (m - ucast MAX_PACKET_OVERHEAD) (maximum_stream_frame_data_size c)"
proof -
  have u: "162 \<le> unat m" using assms(2) by (simp add: word_le_nat_alt)
  show "\<not> m \<le> ucast MAX_PACKET_OVERHEAD"
    using u by (simp add: MAX_PACKET_OVERHEAD_def word_le_nat_alt)
  have "unat (m - 62) = unat m - 62"
    using u by (simp add: unat_sub word_le_nat_alt)
  then have a: "100 \<le> m - 62" using u by (simp add: word_le_nat_alt)
  have b: "maximum_stream_frame_data_size c = 1166"
    using assms(1)
    by (simp add: quiet_def maximum_stream_frame_data_size_def maximum_quic_packet_size_def
        UDP_HEADER_SIZE_def IPV4_HEADER_SIZE_def MAX_STREAM_FRAME_OVERHEAD_def MAX_PACKET_OVERHEAD_def)
  show "100 \<le> min (m - ucast MAX_PACKET_OVERHEAD) (maximum_stream_frame_data_size c)"
    using a b by (simp add: MAX_PACKET_OVERHEAD_def min_def)
qed

lemma packetize_quiet_some:
  assumes "quiet c" "packet_retransmitter c = lost_frame level # rest"
    "rest = [] \<or> tx_level (hd rest) \<noteq> level"
    "level = EL_INITIAL \<or> level = EL_HANDSHAKE \<or> level = EL_ONE_RTT" "162 \<le> m"
  shows "\<exists>p c'. packetize_frames c level m = (Some p, c') \<and> tx_len p = 100
           \<and> quiet c' \<and> packet_retransmitter c' = rest \<and> cc_windows c' = cc_windows c"
proof -
  define s0 where "s0 = \<lparr>max_frame_size = min (m - ucast MAX_PACKET_OVERHEAD)
                                      (maximum_stream_frame_data_size c),
                  probing = False, frame_count = 0, len = 0\<rparr>"
  have f: "store_frames_while_generated (packet_retransmitter c) level s0
           = (rest, count_and_store_frame s0 (lost_frame level))"
    unfolding assms(2)
    using max_frame_size_quiet(2) [OF assms(1,5)] assms(3)
    by (intro store_frames_one) (simp_all add: lost_frame_def s0_def)
  have l: "len (count_and_store_frame s0 (lost_frame level)) = 100"
    "frame_count (count_and_store_frame s0 (lost_frame level)) = 1"
    by (simp_all add: count_and_store_frame_def store_frame_def s0_def lost_frame_def Let_def)
  show ?thesis
    using assms(1,4) max_frame_size_quiet(1) [OF assms(1,5)] f l
    by (auto simp: packetize_frames_def s0_def [symmetric] quiet_def Let_def
      packetize_crypto_quiet [OF assms(1)] packetize_path_def packetize_new_connection_id_def packetize_lost_frames_def
      packetize_max_data_def packetize_blocked_def packetize_stream_def packetize_ack_def
      packetize_schedule_def generate_frame_def will_generate_frame_def stream_frames_loop_none
      ack_generate_frame_def build_packet_def build_packet_of_type_def create_packet_def)
qed


lemma send_level_none:
  assumes "quiet c" "packet_retransmitter c = [] \<or> tx_level (hd (packet_retransmitter c)) \<noteq> level"
  shows "send_packets_of_levels (level # levels) c n w pc e = send_packets_of_levels levels c n w pc e"
  using assms(1) packetize_quiet_none [OF assms, of "ucast (n - w)"]
  by (simp add: quiet_def is_src_addr_verified_def)

lemma send_level_some:
  assumes "quiet c" "packet_retransmitter c = lost_frame level # rest"
    "rest = [] \<or> tx_level (hd rest) \<noteq> level"
    "level = EL_INITIAL \<or> level = EL_HANDSHAKE \<or> level = EL_ONE_RTT"
    "162 \<le> (ucast (n - w) :: 64 word)"
  shows "\<exists>c3. send_packets_of_levels (level # levels) c n w pc e
               = send_packets_of_levels levels c3 n (w + 162) (pc + 1) e
              \<and> quiet c3 \<and> packet_retransmitter c3 = rest \<and> cc_windows c3 = cc_windows c"
proof -
  from packetize_quiet_some [OF assms] obtain p c1 where
    p: "packetize_frames c level (ucast (n - w)) = (Some p, c1)" "tx_len p = 100"
      "quiet c1" "packet_retransmitter c1 = rest" "cc_windows c1 = cc_windows c"
    by blast
  define c2 where "c2 = (if netvc_context c1 = NET_VCONNECTION_IN
                            \<and> (tx_ptype p = PT_INITIAL \<or> tx_ptype p = PT_HANDSHAKE)
                         then c1\<lparr>handshake_packets_sent := handshake_packets_sent c1 + 1\<rparr>
                         else c1)"
  define c3 where "c3 = c2\<lparr>loss_detector :=
                             (loss_detector c2)(pn_space_index level :=
                                on_packet_sent (loss_detector c2 (pn_space_index level)) p)\<rparr>"
  have q3: "quiet c3" "packet_retransmitter c3 = rest" "cc_windows c3 = cc_windows c"
    using p(3,4,5) by (simp_all add: c3_def c2_def quiet_def)
  have "send_packets_of_levels (level # levels) c n w pc e
        = send_packets_of_levels levels c3 n (w + 162) (pc + 1) e"
    using assms(1) p(1,2)
    by (simp add: quiet_def is_src_addr_verified_def Let_def c2_def c3_def packet_store_len_def
        MAX_PACKET_OVERHEAD_def)
  then show ?thesis using q3 by blast
qed

lemma lost_flight_tail:
  "concat (replicate n lost_flight) = [] \<or> tx_level (hd (concat (replicate n lost_flight))) \<noteq> EL_ONE_RTT"
  by (cases n) (simp_all add: lost_flight_def lost_frame_def)

lemma send_flight:
  assumes "quiet c" "packet_retransmitter c = concat (replicate (Suc n) lost_flight)"
  shows "\<exists>c'. send_packets_of_levels QUIC_ENCRYPTION_LEVELS c 1280 0 pc e = (c', 486, pc + 3, e)
              \<and> quiet c' \<and> packet_retransmitter c' = concat (replicate n lost_flight)
              \<and> cc_windows c' = cc_windows c"
proof -
  let ?tail = "concat (replicate n lost_flight)"
  have r: "packet_retransmitter c
           = lost_frame EL_INITIAL # lost_frame EL_HANDSHAKE # lost_frame EL_ONE_RTT # ?tail"
    using assms(2) by (simp add: lost_flight_def)
  obtain c1 where 1:
    "send_packets_of_levels QUIC_ENCRYPTION_LEVELS c 1280 0 pc e
     = send_packets_of_levels [EL_ZERO_RTT, EL_HANDSHAKE, EL_ONE_RTT] c1 1280 (0 + 162) (pc + 1) e"
    "quiet c1" "packet_retransmitter c1 = lost_frame EL_HANDSHAKE # lost_frame EL_ONE_RTT # ?tail"
    "cc_windows c1 = cc_windows c"
    using send_level_some [OF assms(1) r, of 1280 0 "[EL_ZERO_RTT, EL_HANDSHAKE, EL_ONE_RTT]" pc e]
    by (auto simp: QUIC_ENCRYPTION_LEVELS_def lost_frame_def)
  have 2: "send_packets_of_levels [EL_ZERO_RTT, EL_HANDSHAKE, EL_ONE_RTT] c1 1280 (0 + 162) (pc + 1) e
           = send_packets_of_levels [EL_HANDSHAKE, EL_ONE_RTT] c1 1280 (0 + 162) (pc + 1) e"
    using 1(3) by (intro send_level_none [OF 1(2)]) (simp add: lost_frame_def)
  obtain c2 where 3:
    "send_packets_of_levels [EL_HANDSHAKE, EL_ONE_RTT] c1 1280 (0 + 162) (pc + 1) e
     = send_packets_of_levels [EL_ONE_RTT] c2 1280 (0 + 162 + 162) (pc + 1 + 1) e"
    "quiet c2" "packet_retransmitter c2 = lost_frame EL_ONE_RTT # ?tail"
    "cc_windows c2 = cc_windows c1"
    using send_level_some [OF 1(2,3), of 1280 "0 + 162" "[EL_ONE_RTT]" "pc + 1" e]
    by (auto simp: lost_frame_def)
  obtain c3 where 4:
    "send_packets_of_levels [EL_ONE_RTT] c2 1280 (0 + 162 + 162) (pc + 1 + 1) e
     = send_packets_of_levels [] c3 1280 (0 + 162 + 162 + 162) (pc + 1 + 1 + 1) e"
    "quiet c3" "packet_retransmitter c3 = ?tail"
    "cc_windows c3 = cc_windows c2"
    using send_level_some [OF 3(2,3) lost_flight_tail, of 1280 "0 + 162 + 162" "[]" "pc + 1 + 1" e]
    by auto
  have "send_packets_of_levels QUIC_ENCRYPTION_LEVELS c 1280 0 pc e = (c3, 486, pc + 3, e)"
    unfolding 1(1) 2 3(1) 4(1) by simp
  then show ?thesis using 4(2,3,4) 3(4) 1(4) by auto
qed


lemma resend_loop:
  "resend_ready c n \<Longrightarrow> n \<le> 11 \<Longrightarrow> pc = of_nat (33 - 3 * n)
   \<Longrightarrow> snd (state_common_send_packet_loop c pc 0) = 33
       \<and> length (udp_sent (fst (state_common_send_packet_loop c pc 0))) = length (udp_sent c) + n"
proof (induction n arbitrary: c pc)
  case 0
  then have "pc = 33" by simp
  then have "state_common_send_packet_loop c pc 0 = (c, 33)"
    by (subst state_common_send_packet_loop.simps) (simp add: PACKET_PER_EVENT_def word_less_nat_alt)
  then show ?case by simp
next
  case (Suc n)
  have e: "33 - 3 * Suc n = 30 - 3 * n" by simp
  have "pc = of_nat (30 - 3 * n)" unfolding Suc.prems(3) e ..
  then have "unat pc = (30 - 3 * n) mod 2 ^ LENGTH(32)" by (simp only: unat_of_nat)
  then have pc: "unat pc = 30 - 3 * n" by simp
  then have g: "pc < PACKET_PER_EVENT"
    by (simp add: PACKET_PER_EVENT_def word_less_nat_alt)
  define c0 where "c0 = c\<lparr>cc_windows := replicate n 1280\<rparr>"
  have ow: "open_window c = (1280, c0)"
    using Suc.prems(1) by (simp add: open_window_def resend_ready_def c0_def)
  have q0: "quiet c0" "packet_retransmitter c0 = concat (replicate (Suc n) lost_flight)"
    "pmtu c0 = 1280" "cc_windows c0 = replicate n 1280"
    using Suc.prems(1) by (simp_all add: resend_ready_def c0_def quiet_def)
  from send_flight [OF q0(1,2), of pc 0] obtain c1 where
    s: "send_packets_of_levels QUIC_ENCRYPTION_LEVELS c0 1280 0 pc 0 = (c1, 486, pc + 3, 0)"
      "quiet c1" "packet_retransmitter c1 = concat (replicate n lost_flight)"
      "cc_windows c1 = cc_windows c0"
    by blast
  let ?c2 = "c1\<lparr>udp_sent := udp_sent c1 @ [SentPayload 486]\<rparr>"
  have r: "resend_ready ?c2 n"
    using s(2,3,4) q0(4) by (simp add: resend_ready_def quiet_def)
  have p3: "pc + 3 = of_nat (33 - 3 * n)"
  proof -
    have a: "unat (pc + 3) = 33 - 3 * n"
      using pc Suc.prems(2) by (simp add: unat_word_ariths)
    have "unat (of_nat (33 - 3 * n) :: 32 word) = (33 - 3 * n) mod 2 ^ LENGTH(32)"
      by (simp only: unat_of_nat)
    then have b: "unat (of_nat (33 - 3 * n) :: 32 word) = 33 - 3 * n" by simp
    show ?thesis unfolding word_unat_eq_iff a b ..
  qed
  have "state_common_send_packet_loop c pc 0 = state_common_send_packet_loop ?c2 (pc + 3) 0"
    using g ow q0(3) s(1)
    by (subst state_common_send_packet_loop.simps) (simp add: Let_def)
  moreover have "udp_sent c1 = udp_sent c"
    using send_packets_of_levels_handed [OF s(1)] by (auto simp: c0_def)
  ultimately show ?case
    using Suc.IH [OF r _ p3] Suc.prems(2) by simp
qed

text \<open>
  Whatever the congestion controller and the frame producers hold, one invocation of
  \<^verbatim>\<open>_state_common_send_packet\<close> on a connection with a handshake handler returns no
  error, builds at most 32 datagrams and hands at most 34 packets to the loss
  detectors: the count is tested before each datagram only, and a datagram holds at
  most three packets (a 0-RTT packet is never built).
\<close>

lemma state_common_send_packet_overshoot:
  assumes "handshake_handler c \<noteq> None"
  shows "fst (state_common_send_packet c) = None
         \<and> packets_handed (snd (state_common_send_packet c)) \<le> packets_handed c + 34
         \<and> length (udp_sent (snd (state_common_send_packet c))) \<le> length (udp_sent c) + 32"
proof -
  obtain c' pc' where l: "state_common_send_packet_loop c 0 0 = (c', pc')"
    by (cases "state_common_send_packet_loop c 0 0")
  have b: "unat pc' \<le> 34" "packets_handed c' = packets_handed c + unat pc'"
    "length (udp_sent c') \<le> length (udp_sent c) + 32"
    using send_loop_bound [OF l] by simp_all
  show ?thesis
    using l b by (simp add: state_common_send_packet_def packets_handed_def)
qed

text \<open>
  C7, evaluated where it fails. A server in the handshake state, its source address
  verified and its handshake handler present, has eleven lost flights to send again,
  each of one frame at the Initial, the Handshake and the 1-RTT level, and a congestion
  window that is open. One invocation of \<^verbatim>\<open>_state_common_send_packet\<close> hands 33 packets
  to the loss detectors, in eleven datagrams of three packets each: \<^verbatim>\<open>packet_count\<close> is
  30, below \<^verbatim>\<open>PACKET_PER_EVENT\<close>, when the eleventh datagram is begun, and the loop over
  the encryption levels does not test it.
\<close>

theorem state_common_send_packet_33:
  "handshake_handler (resending_server 11) = Some new_handshake
   \<and> packets_handed (resending_server 11) = 0
   \<and> udp_sent (resending_server 11) = []
   \<and> packets_handed (snd (state_common_send_packet (resending_server 11))) = 33
   \<and> length (udp_sent (snd (state_common_send_packet (resending_server 11)))) = 11
   \<and> unat PACKET_PER_EVENT = 32"
proof -
  have rr: "resend_ready (resending_server 11) 11"
    by (simp add: resend_ready_def resending_server_def new_connection_def quiet_def
        new_flow_controller_def new_handshake_def)
  have z: "packets_handed (resending_server 11) = 0"
    "handshake_handler (resending_server 11) = Some new_handshake"
    "udp_sent (resending_server 11) = []"
    by (simp_all add: packets_handed_def resending_server_def new_connection_def new_loss_detector_def)
  obtain c' pc' where l: "state_common_send_packet_loop (resending_server 11) 0 0 = (c', pc')"
    by (cases "state_common_send_packet_loop (resending_server 11) 0 0")
  have "pc' = 33" and u: "length (udp_sent c') = 11"
    using resend_loop [OF rr, of 0] l z(3) by simp_all
  then have h: "packets_handed c' = packets_handed (resending_server 11) + 33"
    using send_loop_bound [OF l] by simp
  have "packets_handed (snd (state_common_send_packet (resending_server 11))) = packets_handed c'"
    "udp_sent (snd (state_common_send_packet (resending_server 11))) = udp_sent c'"
    using l by (simp_all add: state_common_send_packet_def packets_handed_def)
  then show ?thesis using h z u by (simp add: PACKET_PER_EVENT_def)
qed

end
